theory Spec2Isabelle
  imports Main "HOL-Library.Word"
begin

unbundle bit_operations_syntax

section \<open>Data model of the scheduler (scheduler.c)\<close>

text \<open>
  The scheduler keeps one process-wide object, reached through the file-level pointer
  \<open>Scheduler\<close>.  Its C type \<open>SCHEDULER_Class\<close> and the table types are declared in
  headers (scheduler.h, schtbl.h, msgtbl.h) that accompany scheduler.c.  The unsigned
  integer members are embedded as 32-bit words, the type of the locals \<open>CurrentSlot\<close>,
  \<open>ProcessCount\<close> and \<open>Remainder\<close> with which scheduler.c combines them: under the
  integer promotions of C a narrower unsigned member is zero-extended to that width
  before every comparison and arithmetic step modelled below.
\<close>

type_synonym uint8 = "8 word"
type_synonym uint16 = "16 word"
type_synonym uint32 = "32 word"

text \<open>Run-time failures of the C code that end the program (or leave it undefined).\<close>

datatype fault = DivideByZero | OutOfBounds

text \<open>
  Status codes of the cFE/OSAL calls.  scheduler.c only ever compares a status with
  \<open>CFE_SUCCESS\<close> (which it requires to equal \<open>OS_SUCCESS\<close>) and uses
  \<open>CFE_SB_NO_MESSAGE\<close> as "any non-success error code".
\<close>

datatype status = CFE_SUCCESS | CFE_SB_NO_MESSAGE | CFE_STATUS_ERROR int

text \<open>One activity of the schedule table.\<close>

record SCHTBL_Entry =
  Enabled :: bool
  Period :: uint32
  Offset :: uint32
  MsgTblIndex :: uint32

text \<open>A message table entry is a buffer of 16-bit words.\<close>

type_synonym MSGTBL_Entry = "uint16 list"

datatype MajorFrameSrc =
  SCHEDULER_MF_SOURCE_NONE | SCHEDULER_MF_SOURCE_CFE_TIME | SCHEDULER_MF_SOURCE_MINOR_FRAME_TIMER

record SCHEDULER_Class =
  MsgTbl :: "MSGTBL_Entry list"
  SchTbl :: "SCHTBL_Entry list"
  SlotsProcessedCount :: uint32
  SkippedSlotsCount :: uint32
  MultipleSlotsCount :: uint32
  SameSlotCount :: uint32
  ScheduleActivitySuccessCount :: uint32
  ScheduleActivityFailureCount :: uint32
  ValidMajorFrameCount :: uint32
  MissedMajorFrameCount :: uint32
  UnexpectedMajorFrameCount :: uint32
  TablePassCount :: uint32
  ConsecutiveNoisyFrameCounter :: uint32
  SendNoisyMajorFrameMsg :: bool
  IgnoreMajorFrame :: bool
  UnexpectedMajorFrame :: bool
  SyncToMET :: uint8
  MajorFrameSource :: MajorFrameSrc
  NextSlotNumber :: uint32
  MinorFramesSinceTone :: uint32
  LastSyncMETSlot :: uint32
  SyncAttemptsLeft :: uint32
  WorstCaseSlotsPerMinorFrame :: uint32
  LastProcessCount :: uint32

text \<open>
  What the scheduler does to the outside: the timer and semaphore calls and the message
  dispatches, in the order they happen.  \<open>Dispatch i m st\<close> is the dispatch attempted
  for the schedule entry at table index \<open>i\<close>, which references message \<open>m\<close>, with the
  resulting \<open>MsgSendStatus\<close>.  \<open>SlotRun n\<close> is a trace marker, not a call: it records
  that \<open>ProcessNextSlot\<close> was entered for slot \<open>n\<close>.  Event messages
  (\<open>CFE_EVS_SendEvent\<close>) are fire-and-forget diagnostics and are left out.
\<close>

datatype effect =
  OS_TimerSet uint32 uint32
| OS_BinSemGive
| Dispatch nat uint32 status
| SlotRun uint32

record world =
  Scheduler :: SCHEDULER_Class
  Out :: "effect list"

text \<open>
  The compile-time constants that scheduler.c takes from its headers.  They are
  parameters of the model.
\<close>

record config =
  SCHTBL_SLOTS :: uint32
  SCHTBL_ACTIVITIES_PER_SLOT :: nat
  SCHEDULER_MAX_LAG_COUNT :: uint32
  SCHEDULER_MAX_SLOTS_PER_WAKEUP :: uint32
  SCHEDULER_TIME_SYNC_SLOT :: uint32
  SCHEDULER_MAX_NOISY_MF :: uint32
  SCHEDULER_MAX_SYNC_ATTEMPTS :: uint32
  SCHEDULER_NORMAL_SLOT_PERIOD :: uint32
  SCHEDULER_SHORT_SLOT_PERIOD :: uint32
  SCHEDULER_SYNC_SLOT_PERIOD :: uint32
  SCHEDULER_SYNCH_FALSE :: uint8
  SCHEDULER_SYNCH_TO_MINOR :: uint8
  SCHEDULER_SYNCH_TO_MAJOR :: uint8
  SCHEDULER_SYNCH_MAJOR_PENDING :: uint8
  CFE_TIME_FLAG_FLYING :: uint16

text \<open>
  The collaborators that scheduler.c calls and whose code lives elsewhere: what they
  return during one invocation of a scheduler operation.  \<open>CFE_SB_TransmitMsg\<close> takes
  the number of effects performed so far as a time stamp, so that the same message may be
  sent successfully at one time and fail at another.
\<close>

record env =
  OS_BinSemTake :: status
  CFE_TIME_GetClockInfo :: uint16
  CFE_TIME_GetMETsubsecs :: uint32
  CFE_TIME_Sub2MicroSecs :: "uint32 \<Rightarrow> uint32"
  MSGTBL_GetMsgPtr :: "uint32 \<Rightarrow> MSGTBL_Entry option"
  CFE_SB_TransmitMsg :: "nat \<Rightarrow> MSGTBL_Entry \<Rightarrow> status"
  SCHTBL_GetEntryIndex :: "uint16 \<Rightarrow> uint16 \<Rightarrow> uint16 option"
  SCHTBL_ValidEntry :: "uint16 \<Rightarrow> uint32 \<Rightarrow> uint32 \<Rightarrow> uint32 \<Rightarrow> bool"
  CMDMGR_ValidBoolArg :: "uint16 \<Rightarrow> bool"

section \<open>Exported operations\<close>

subsection \<open>SCHEDULER_ResetStatus (lines 157-173)\<close>

definition SCHEDULER_ResetStatus :: "world \<Rightarrow> world" where
  "SCHEDULER_ResetStatus w =
     w\<lparr>Scheduler := (Scheduler w)
        \<lparr>SlotsProcessedCount := 0,
         SkippedSlotsCount := 0,
         MultipleSlotsCount := 0,
         SameSlotCount := 0,
         ScheduleActivitySuccessCount := 0,
         ScheduleActivityFailureCount := 0,
         ValidMajorFrameCount := 0,
         MissedMajorFrameCount := 0,
         UnexpectedMajorFrameCount := 0,
         TablePassCount := 0,
         ConsecutiveNoisyFrameCounter := 0,
         IgnoreMajorFrame := False\<rparr>\<rparr>"

subsection \<open>Schedule table commands and loads (lines 180-275, 606-633)\<close>

text \<open>
  The command packets.  \<open>Enabled\<close> arrives as a number, which the command manager's
  \<open>CMDMGR_ValidBoolArg\<close> (a collaborator, member of \<open>env\<close>) is asked about.
\<close>

record SCHEDULER_ConfigSchEntryCmdMsg =
  CfgSlot :: uint16
  CfgActivity :: uint16
  CfgEnabled :: uint16

record SCHEDULER_LoadSchEntryCmdMsg =
  LdSlot :: uint16
  LdActivity :: uint16
  LdEnabled :: uint16
  LdPeriod :: uint32
  LdOffset :: uint32
  LdMsgTblIndex :: uint32

text \<open>A C \<open>bool\<close> passed where an integer is expected.\<close>

definition bool_arg :: "bool \<Rightarrow> uint16" where
  "bool_arg b = (if b then 1 else 0)"

text \<open>
  Writing \<open>Scheduler->SchTbl.Entry[Index]\<close>.  None of the C functions below checks
  \<open>Index\<close> against the size of the array themselves; an index beyond the table is
  a write outside the array.
\<close>

definition set_entry :: "nat \<Rightarrow> (SCHTBL_Entry \<Rightarrow> SCHTBL_Entry) \<Rightarrow> world \<Rightarrow> world" where
  "set_entry i f w =
     w\<lparr>Scheduler := (Scheduler w)\<lparr>SchTbl := (SchTbl (Scheduler w))[i := f (SchTbl (Scheduler w) ! i)]\<rparr>\<rparr>"

definition SCHEDULER_ConfigSchEntryCmd ::
  "env \<Rightarrow> SCHEDULER_ConfigSchEntryCmdMsg \<Rightarrow> world \<Rightarrow> fault + (bool \<times> world)" where
  "SCHEDULER_ConfigSchEntryCmd ev ConfigSchEntryCmd w =
     (case SCHTBL_GetEntryIndex ev (CfgSlot ConfigSchEntryCmd) (CfgActivity ConfigSchEntryCmd) of
        None \<Rightarrow> Inr (False, w)
      | Some Index \<Rightarrow>
          if CMDMGR_ValidBoolArg ev (CfgEnabled ConfigSchEntryCmd) then
            if unat Index < length (SchTbl (Scheduler w)) then
              let Entry = SchTbl (Scheduler w) ! unat Index;
                  RetStatus =
                    (if CfgEnabled ConfigSchEntryCmd = 1
                     then SCHTBL_ValidEntry ev (bool_arg (Enabled Entry)) (Period Entry)
                            (Offset Entry) (MsgTblIndex Entry)
                     else True)
              in if RetStatus
                 then Inr (True,
                        set_entry (unat Index)
                          (\<lambda>e. e\<lparr>Enabled := (CfgEnabled ConfigSchEntryCmd \<noteq> 0)\<rparr>) w)
                 else Inr (False, w)
            else Inl OutOfBounds
          else Inr (False, w))"

definition SCHEDULER_LoadSchEntryCmd ::
  "env \<Rightarrow> SCHEDULER_LoadSchEntryCmdMsg \<Rightarrow> world \<Rightarrow> fault + (bool \<times> world)" where
  "SCHEDULER_LoadSchEntryCmd ev LoadSchEntryCmd w =
     (case SCHTBL_GetEntryIndex ev (LdSlot LoadSchEntryCmd) (LdActivity LoadSchEntryCmd) of
        None \<Rightarrow> Inr (False, w)
      | Some Index \<Rightarrow>
          if SCHTBL_ValidEntry ev (LdEnabled LoadSchEntryCmd) (LdPeriod LoadSchEntryCmd)
               (LdOffset LoadSchEntryCmd) (LdMsgTblIndex LoadSchEntryCmd)
          then
            if unat Index < length (SchTbl (Scheduler w)) then
              Inr (True,
                set_entry (unat Index)
                  (\<lambda>e. e\<lparr>Enabled := (LdEnabled LoadSchEntryCmd \<noteq> 0),
                          Period := LdPeriod LoadSchEntryCmd,
                          Offset := LdOffset LoadSchEntryCmd,
                          MsgTblIndex := LdMsgTblIndex LoadSchEntryCmd\<rparr>) w)
            else Inl OutOfBounds
          else Inr (False, w))"

text \<open>
  \<open>SCHEDULER_LoadSchTbl\<close> and \<open>SCHEDULER_LoadSchTblEntry\<close> copy what they are given
  ("No validity checks are performed on the table data", "Range checking is not
  performed on the parameters") and return \<open>true\<close>.
\<close>

definition SCHEDULER_LoadSchTbl :: "SCHTBL_Entry list \<Rightarrow> world \<Rightarrow> bool \<times> world" where
  "SCHEDULER_LoadSchTbl NewTbl w = (True, w\<lparr>Scheduler := (Scheduler w)\<lparr>SchTbl := NewTbl\<rparr>\<rparr>)"

definition SCHEDULER_LoadSchTblEntry ::
  "uint16 \<Rightarrow> SCHTBL_Entry \<Rightarrow> world \<Rightarrow> fault + (bool \<times> world)" where
  "SCHEDULER_LoadSchTblEntry EntryId NewEntry w =
     (if unat EntryId < length (SchTbl (Scheduler w))
      then Inr (True, set_entry (unat EntryId) (\<lambda>e. NewEntry) w)
      else Inl OutOfBounds)"

section \<open>Slot clock (lines 1100-1183)\<close>

text \<open>
  \<open>SCHEDULER_NORMAL_SLOT_PERIOD\<close> is a divisor; C leaves a division by zero
  undefined, so the model makes it a fault.
\<close>

definition GetMETSlotNumber :: "config \<Rightarrow> env \<Rightarrow> fault + uint32" where
  "GetMETSlotNumber cfg ev =
     (if SCHEDULER_NORMAL_SLOT_PERIOD cfg = 0 then Inl DivideByZero
      else
        let SubSeconds = CFE_TIME_GetMETsubsecs ev;
            MicroSeconds = CFE_TIME_Sub2MicroSecs ev SubSeconds;
            METSlot = MicroSeconds div SCHEDULER_NORMAL_SLOT_PERIOD cfg;
            Remainder = MicroSeconds - METSlot * SCHEDULER_NORMAL_SLOT_PERIOD cfg;
            Remainder1 = Remainder + 1;
            METSlot1 = METSlot + Remainder1 div SCHEDULER_NORMAL_SLOT_PERIOD cfg
        in Inr (if METSlot1 = SCHTBL_SLOTS cfg then 0 else METSlot1))"

definition GetCurrentSlotNumber :: "config \<Rightarrow> env \<Rightarrow> SCHEDULER_Class \<Rightarrow> fault + uint32" where
  "GetCurrentSlotNumber cfg ev S =
     (if SyncToMET S \<noteq> SCHEDULER_SYNCH_FALSE cfg then
        (case GetMETSlotNumber cfg ev of
           Inl f \<Rightarrow> Inl f
         | Inr CurrentSlot \<Rightarrow>
             if CurrentSlot < LastSyncMETSlot S
             then Inr (CurrentSlot + SCHTBL_SLOTS cfg - LastSyncMETSlot S)
             else Inr (CurrentSlot - LastSyncMETSlot S))
      else Inr (MinorFramesSinceTone S))"

section \<open>Slot executor: ProcessNextSlot (lines 1190-1268)\<close>

text \<open>
  One iteration of the loop over the activities of a slot, for the entry at table index
  \<open>i\<close> (\<open>NextEntry\<close> in the C code).  The modulus \<open>TablePassCount % Period\<close> is
  taken for every enabled entry; with \<open>Period = 0\<close> it is a division by zero.
\<close>

text \<open>
  Lines 1215-1220: \<open>MsgSendStatus\<close> of a dispatch at time \<open>t\<close> of the message with
  table index \<open>MsgId\<close>: the lookup may miss, and the transmission may fail.
\<close>

definition send_status :: "env \<Rightarrow> nat \<Rightarrow> uint32 \<Rightarrow> status" where
  "send_status ev t MsgId =
     (case MSGTBL_GetMsgPtr ev MsgId of
        None \<Rightarrow> CFE_SB_NO_MESSAGE
      | Some MsgPtr \<Rightarrow> CFE_SB_TransmitMsg ev t MsgPtr)"

definition process_entry :: "env \<Rightarrow> nat \<Rightarrow> world \<Rightarrow> fault + world" where
  "process_entry ev i w =
     (let S = Scheduler w in
      if length (SchTbl S) \<le> i then Inl OutOfBounds
      else
        let NextEntry = SchTbl S ! i in
        if Enabled NextEntry then
          if Period NextEntry = 0 then Inl DivideByZero
          else
            let Remainder = TablePassCount S mod Period NextEntry in
            if Remainder = Offset NextEntry then
              let MsgSendStatus = send_status ev (length (Out w)) (MsgTblIndex NextEntry);
                  out = Out w @ [Dispatch i (MsgTblIndex NextEntry) MsgSendStatus]
              in if MsgSendStatus = CFE_SUCCESS then
                   Inr (w\<lparr>Scheduler :=
                            S\<lparr>ScheduleActivitySuccessCount := ScheduleActivitySuccessCount S + 1\<rparr>,
                          Out := out\<rparr>)
                 else
                   Inr (w\<lparr>Scheduler :=
                            S\<lparr>SchTbl := (SchTbl S)[i := NextEntry\<lparr>Enabled := False\<rparr>],
                              ScheduleActivityFailureCount := ScheduleActivityFailureCount S + 1\<rparr>,
                          Out := out\<rparr>)
            else Inr w
        else Inr w)"

text \<open>The \<open>for\<close> loop, over the table indices of the slot in ascending order.\<close>

fun process_entries :: "env \<Rightarrow> nat list \<Rightarrow> world \<Rightarrow> fault + world" where
  "process_entries ev [] w = Inr w"
| "process_entries ev (i # is) w =
     (case process_entry ev i w of
        Inl f \<Rightarrow> Inl f
      | Inr w' \<Rightarrow> process_entries ev is w')"

text \<open>The table indices of slot \<open>n\<close>: \<open>SlotIndex + EntryNumber\<close>.\<close>

definition slot_indices :: "config \<Rightarrow> uint32 \<Rightarrow> nat list" where
  "slot_indices cfg n =
     [unat n * SCHTBL_ACTIVITIES_PER_SLOT cfg ..<
      unat n * SCHTBL_ACTIVITIES_PER_SLOT cfg + SCHTBL_ACTIVITIES_PER_SLOT cfg]"

text \<open>The end of \<open>ProcessNextSlot\<close>: advance, wrap, count (lines 1256-1264).\<close>

definition advance_slot :: "config \<Rightarrow> SCHEDULER_Class \<Rightarrow> SCHEDULER_Class" where
  "advance_slot cfg S =
     (let S1 = S\<lparr>NextSlotNumber := NextSlotNumber S + 1\<rparr>;
          S2 = (if NextSlotNumber S1 = SCHTBL_SLOTS cfg
                then S1\<lparr>NextSlotNumber := 0, TablePassCount := TablePassCount S1 + 1\<rparr>
                else S1)
      in S2\<lparr>SlotsProcessedCount := SlotsProcessedCount S2 + 1\<rparr>)"

definition ProcessNextSlot :: "config \<Rightarrow> env \<Rightarrow> world \<Rightarrow> fault + (status \<times> world)" where
  "ProcessNextSlot cfg ev w =
     (let Result = CFE_SUCCESS;
          w0 = w\<lparr>Out := Out w @ [SlotRun (NextSlotNumber (Scheduler w))]\<rparr>
      in case process_entries ev (slot_indices cfg (NextSlotNumber (Scheduler w))) w0 of
           Inl f \<Rightarrow> Inl f
         | Inr w1 \<Rightarrow> Inr (Result, w1\<lparr>Scheduler := advance_slot cfg (Scheduler w1)\<rparr>))"

section \<open>Wakeup reconciler: SCHEDULER_Execute (lines 679-845)\<close>

text \<open>Lines 711-719.\<close>

definition initial_process_count :: "config \<Rightarrow> uint32 \<Rightarrow> SCHEDULER_Class \<Rightarrow> uint32" where
  "initial_process_count cfg CurrentSlot S =
     (if CurrentSlot < NextSlotNumber S
      then (SCHTBL_SLOTS cfg - NextSlotNumber S) + (CurrentSlot + 1)
      else (CurrentSlot - NextSlotNumber S) + 1)"

text \<open>Lines 733-761.\<close>

definition jitter_correction ::
  "config \<Rightarrow> uint32 \<Rightarrow> SCHEDULER_Class \<Rightarrow> uint32 \<times> SCHEDULER_Class" where
  "jitter_correction cfg ProcessCount S =
     (if ProcessCount = 2 then
        ((if LastProcessCount S = 1 then 1 else ProcessCount), S\<lparr>LastProcessCount := 2\<rparr>)
      else if ProcessCount = SCHTBL_SLOTS cfg then
        ((if LastProcessCount S \<noteq> SCHTBL_SLOTS cfg then 1 else ProcessCount),
         S\<lparr>LastProcessCount := SCHTBL_SLOTS cfg\<rparr>)
      else (ProcessCount, S\<lparr>LastProcessCount := ProcessCount\<rparr>))"

text \<open>Lines 766-774.\<close>

definition same_slot ::
  "config \<Rightarrow> uint32 \<Rightarrow> SCHEDULER_Class \<Rightarrow> uint32 \<times> SCHEDULER_Class" where
  "same_slot cfg ProcessCount S =
     (if ProcessCount = SCHTBL_SLOTS cfg
      then (0, S\<lparr>SameSlotCount := SameSlotCount S + 1\<rparr>)
      else (ProcessCount, S))"

text \<open>Lines 777-809.\<close>

definition lag_limit ::
  "config \<Rightarrow> uint32 \<Rightarrow> uint32 \<Rightarrow> SCHEDULER_Class \<Rightarrow> uint32 \<times> SCHEDULER_Class" where
  "lag_limit cfg CurrentSlot ProcessCount S =
     (if ProcessCount > SCHEDULER_MAX_LAG_COUNT cfg then
        let S1 = S\<lparr>SkippedSlotsCount := SkippedSlotsCount S + 1\<rparr>;
            S2 = (if CurrentSlot < NextSlotNumber S1
                  then S1\<lparr>TablePassCount := TablePassCount S1 + 1\<rparr>
                  else S1)
        in (1, S2\<lparr>NextSlotNumber := CurrentSlot\<rparr>)
      else (ProcessCount, S))"

text \<open>Lines 814-831.\<close>

definition slots_per_wakeup :: "config \<Rightarrow> uint32 \<Rightarrow> uint32" where
  "slots_per_wakeup cfg ProcessCount =
     (if ProcessCount > SCHEDULER_MAX_SLOTS_PER_WAKEUP cfg
      then SCHEDULER_MAX_SLOTS_PER_WAKEUP cfg
      else ProcessCount)"

definition multiple_slots :: "uint32 \<Rightarrow> SCHEDULER_Class \<Rightarrow> SCHEDULER_Class" where
  "multiple_slots ProcessCount S =
     (if ProcessCount > 1
      then S\<lparr>MultipleSlotsCount := MultipleSlotsCount S + 1\<rparr>
      else S)"

text \<open>
  Lines 711-774 in sequence: \<open>ProcessCount\<close> and the state on reaching the lag check
  of line 777, after the jitter correction and the same-slot zeroing.
\<close>

definition lag_input ::
  "config \<Rightarrow> uint32 \<Rightarrow> SCHEDULER_Class \<Rightarrow> uint32 \<times> SCHEDULER_Class" where
  "lag_input cfg CurrentSlot S =
     (let ProcessCount = initial_process_count cfg CurrentSlot S;
          (ProcessCount1, S1) = jitter_correction cfg ProcessCount S
      in same_slot cfg ProcessCount1 S1)"

text \<open>The lag check of line 777 fires.\<close>

definition lagging :: "config \<Rightarrow> uint32 \<Rightarrow> SCHEDULER_Class \<Rightarrow> bool" where
  "lagging cfg CurrentSlot S = (SCHEDULER_MAX_LAG_COUNT cfg < fst (lag_input cfg CurrentSlot S))"

text \<open>
  Lines 711-833 in sequence: from the slot reported by the slot clock to the final
  \<open>ProcessCount\<close> and the state in which the slots are then processed.
\<close>

definition reconcile ::
  "config \<Rightarrow> uint32 \<Rightarrow> SCHEDULER_Class \<Rightarrow> uint32 \<times> SCHEDULER_Class" where
  "reconcile cfg CurrentSlot S =
     (let (ProcessCount2, S2) = lag_input cfg CurrentSlot S;
          (ProcessCount3, S3) = lag_limit cfg CurrentSlot ProcessCount2 S2;
          ProcessCount4 = slots_per_wakeup cfg ProcessCount3
      in (ProcessCount4, multiple_slots ProcessCount4 S3))"

text \<open>The \<open>while\<close> loop of lines 835-839.\<close>

function process_slots ::
  "config \<Rightarrow> env \<Rightarrow> uint32 \<Rightarrow> status \<Rightarrow> world \<Rightarrow> fault + (status \<times> world)" where
  "process_slots cfg ev ProcessCount Result w =
     (if ProcessCount \<noteq> 0 \<and> Result = CFE_SUCCESS then
        (case ProcessNextSlot cfg ev w of
           Inl f \<Rightarrow> Inl f
         | Inr (Result', w') \<Rightarrow> process_slots cfg ev (ProcessCount - 1) Result' w')
      else Inr (Result, w))"
  by pat_completeness auto
termination
  by (relation "measure (\<lambda>(cfg, ev, ProcessCount, Result, w). unat ProcessCount)")
     (auto simp: unat_minus_one unat_gt_0)

declare process_slots.simps [simp del]

text \<open>Lines 693-706: the one-shot "noisy major frame" event flag.\<close>

definition noisy_msg_flag :: "SCHEDULER_Class \<Rightarrow> SCHEDULER_Class" where
  "noisy_msg_flag S =
     (if IgnoreMajorFrame S then
        (if SendNoisyMajorFrameMsg S then S\<lparr>SendNoisyMajorFrameMsg := False\<rparr> else S)
      else S\<lparr>SendNoisyMajorFrameMsg := True\<rparr>)"

definition SCHEDULER_Execute :: "config \<Rightarrow> env \<Rightarrow> world \<Rightarrow> fault + (bool \<times> world)" where
  "SCHEDULER_Execute cfg ev w =
     (let Result = OS_BinSemTake ev in
      if Result = CFE_SUCCESS then
        let S = noisy_msg_flag (Scheduler w) in
        case GetCurrentSlotNumber cfg ev S of
          Inl f \<Rightarrow> Inl f
        | Inr CurrentSlot \<Rightarrow>
            let (ProcessCount, S') = reconcile cfg CurrentSlot S in
            (case process_slots cfg ev ProcessCount Result (w\<lparr>Scheduler := S'\<rparr>) of
               Inl f \<Rightarrow> Inl f
             | Inr (Result', w') \<Rightarrow> Inr (Result' = CFE_SUCCESS, w'))
      else Inr (Result = CFE_SUCCESS, w))"

section \<open>Synchronization monitor: MajorFrameCallback (lines 852-970)\<close>





section \<open>Minor frame driver: MinorFrameCallback (lines 977-1093)\<close>


text \<open>Lines 1051-1089: rollover, the long slot timer, and the wakeup.\<close>

definition minor_frame_finish :: "config \<Rightarrow> world \<Rightarrow> world" where
  "minor_frame_finish cfg w =
     (let w1 = (if MinorFramesSinceTone (Scheduler w) \<ge> SCHTBL_SLOTS cfg then
                  w\<lparr>Scheduler := (Scheduler w)
                       \<lparr>MinorFramesSinceTone := 0,
                        MissedMajorFrameCount := MissedMajorFrameCount (Scheduler w) + 1\<rparr>,
                    Out := Out w @
                      [OS_TimerSet (SCHEDULER_SHORT_SLOT_PERIOD cfg)
                         (SCHEDULER_NORMAL_SLOT_PERIOD cfg)]\<rparr>
                else w);
          w2 = (if MinorFramesSinceTone (Scheduler w1) = SCHEDULER_TIME_SYNC_SLOT cfg
                then w1\<lparr>Out := Out w1 @ [OS_TimerSet (SCHEDULER_SYNC_SLOT_PERIOD cfg) 0]\<rparr>
                else w1)
      in w2\<lparr>Out := Out w2 @ [OS_BinSemGive]\<rparr>)"


section \<open>Observations and invariants used in the properties\<close>

text \<open>The effects that a step from \<open>w\<close> to \<open>w'\<close> added.\<close>

definition new_out :: "world \<Rightarrow> world \<Rightarrow> effect list" where
  "new_out w w' = drop (length (Out w)) (Out w')"

text \<open>The slots on which \<open>ProcessNextSlot\<close> ran, in order.\<close>

definition slots_run :: "effect list \<Rightarrow> uint32 list" where
  "slots_run es = concat (map (\<lambda>e. case e of SlotRun n \<Rightarrow> [n] | _ \<Rightarrow> []) es)"

text \<open>The dispatches attempted: table index of the entry and the message it references.\<close>

definition dispatched :: "effect list \<Rightarrow> (nat \<times> uint32) list" where
  "dispatched es = concat (map (\<lambda>e. case e of Dispatch i m st \<Rightarrow> [(i, m)] | _ \<Rightarrow> []) es)"

text \<open>The table indices of the entries whose dispatch failed.\<close>

definition failed :: "effect list \<Rightarrow> nat list" where
  "failed es =
     concat (map (\<lambda>e. case e of Dispatch i m st \<Rightarrow> (if st = CFE_SUCCESS then [] else [i])
                               | _ \<Rightarrow> []) es)"

definition succeeded :: "effect list \<Rightarrow> nat list" where
  "succeeded es =
     concat (map (\<lambda>e. case e of Dispatch i m st \<Rightarrow> (if st = CFE_SUCCESS then [i] else [])
                               | _ \<Rightarrow> []) es)"

text \<open>The phase condition of line 1209-1211 for the entry at table index \<open>i\<close>.\<close>

definition due :: "SCHEDULER_Class \<Rightarrow> nat \<Rightarrow> bool" where
  "due S i =
     (Enabled (SchTbl S ! i) \<and> TablePassCount S mod Period (SchTbl S ! i) = Offset (SchTbl S ! i))"

text \<open>
  The schedule table has \<open>SCHTBL_SLOTS * SCHTBL_ACTIVITIES_PER_SLOT\<close> entries, and every
  enabled entry has a period of at least one.
\<close>

definition table_ok :: "config \<Rightarrow> SCHEDULER_Class \<Rightarrow> bool" where
  "table_ok cfg S =
     (length (SchTbl S) = unat (SCHTBL_SLOTS cfg) * SCHTBL_ACTIVITIES_PER_SLOT cfg \<and>
      list_all (\<lambda>e. Enabled e \<longrightarrow> Period e \<noteq> 0) (SchTbl S))"

definition periods_ok :: "SCHEDULER_Class \<Rightarrow> bool" where
  "periods_ok S = list_all (\<lambda>e. Enabled e \<longrightarrow> Period e \<noteq> 0) (SchTbl S)"

text \<open>The table after the entries with indices \<open>fs\<close> have been disabled.\<close>

definition disable_entries :: "nat list \<Rightarrow> SCHTBL_Entry list \<Rightarrow> SCHTBL_Entry list" where
  "disable_entries fs tbl =
     map (\<lambda>j. if j \<in> set fs then (tbl ! j)\<lparr>Enabled := False\<rparr> else tbl ! j) [0..<length tbl]"

text \<open>
  The dispatches that the loop over the entries \<open>js\<close> of a table in state \<open>S\<close> adds to
  the effects from time \<open>t\<close> on: one for every entry whose phase condition holds, with
  the status that the message table lookup and the software bus give for its message at
  that time.
\<close>

fun dispatch_log :: "env \<Rightarrow> SCHEDULER_Class \<Rightarrow> nat \<Rightarrow> nat list \<Rightarrow> effect list" where
  "dispatch_log ev S t [] = []"
| "dispatch_log ev S t (i # js) =
     (if due S i then
        Dispatch i (MsgTblIndex (SchTbl S ! i))
          (case MSGTBL_GetMsgPtr ev (MsgTblIndex (SchTbl S ! i)) of
             None \<Rightarrow> CFE_SB_NO_MESSAGE
           | Some MsgPtr \<Rightarrow> CFE_SB_TransmitMsg ev t MsgPtr)
        # dispatch_log ev S (Suc t) js
      else dispatch_log ev S t js)"

text \<open>
  What the loop over the entries \<open>js\<close> does between \<open>w\<close> and \<open>w'\<close>, adding the effects
  \<open>es\<close>: exactly the due entries are dispatched, those whose dispatch fails are disabled
  and counted, and nothing else changes.
\<close>

definition entries_step :: "env \<Rightarrow> nat list \<Rightarrow> world \<Rightarrow> world \<Rightarrow> effect list \<Rightarrow> bool" where
  "entries_step ev js w w' es =
     (let S = Scheduler w; S' = Scheduler w' in
      Out w' = Out w @ es \<and>
      slots_run es = [] \<and>
      dispatched es = map (\<lambda>i. (i, MsgTblIndex (SchTbl S ! i))) (filter (due S) js) \<and>
      set (failed es) \<union> set (succeeded es) = set (filter (due S) js) \<and>
      length (failed es) + length (succeeded es) = length (dispatched es) \<and>
      list_all (\<lambda>i. \<exists>t. send_status ev t (MsgTblIndex (SchTbl S ! i)) \<noteq> CFE_SUCCESS) (failed es) \<and>
      list_all (\<lambda>i. \<exists>t. send_status ev t (MsgTblIndex (SchTbl S ! i)) = CFE_SUCCESS) (succeeded es) \<and>
      S' = S\<lparr>SchTbl := disable_entries (failed es) (SchTbl S),
             ScheduleActivitySuccessCount :=
               ScheduleActivitySuccessCount S + of_nat (length (succeeded es)),
             ScheduleActivityFailureCount :=
               ScheduleActivityFailureCount S + of_nat (length (failed es))\<rparr>)"

text \<open>The members that \<open>ProcessNextSlot\<close> may change, blanked out.\<close>

definition executor_frame :: "SCHEDULER_Class \<Rightarrow> SCHEDULER_Class" where
  "executor_frame S =
     S\<lparr>SchTbl := [],
       ScheduleActivitySuccessCount := 0,
       ScheduleActivityFailureCount := 0,
       NextSlotNumber := 0,
       TablePassCount := 0,
       SlotsProcessedCount := 0\<rparr>"

text \<open>What one call of \<open>ProcessNextSlot\<close> does between \<open>w\<close> and \<open>w'\<close>.\<close>

definition slot_step :: "config \<Rightarrow> env \<Rightarrow> world \<Rightarrow> world \<Rightarrow> effect list \<Rightarrow> bool" where
  "slot_step cfg ev w w' es =
     (let S = Scheduler w; js = slot_indices cfg (NextSlotNumber S) in
      Out w' = Out w @ SlotRun (NextSlotNumber S) # es \<and>
      slots_run es = [] \<and>
      dispatched es = map (\<lambda>i. (i, MsgTblIndex (SchTbl S ! i))) (filter (due S) js) \<and>
      set (failed es) \<union> set (succeeded es) = set (filter (due S) js) \<and>
      length (failed es) + length (succeeded es) = length (dispatched es) \<and>
      list_all (\<lambda>i. \<exists>t. send_status ev t (MsgTblIndex (SchTbl S ! i)) \<noteq> CFE_SUCCESS) (failed es) \<and>
      list_all (\<lambda>i. \<exists>t. send_status ev t (MsgTblIndex (SchTbl S ! i)) = CFE_SUCCESS) (succeeded es) \<and>
      Scheduler w' = advance_slot cfg
        (S\<lparr>SchTbl := disable_entries (failed es) (SchTbl S),
           ScheduleActivitySuccessCount :=
             ScheduleActivitySuccessCount S + of_nat (length (succeeded es)),
           ScheduleActivityFailureCount :=
             ScheduleActivityFailureCount S + of_nat (length (failed es))\<rparr>))"

text \<open>
  What \<open>n\<close> calls of \<open>ProcessNextSlot\<close> in a row do: the slots are taken in cyclic order
  from \<open>NextSlotNumber\<close>, and \<open>TablePassCount\<close> counts the wraps.
\<close>

definition run_step :: "config \<Rightarrow> nat \<Rightarrow> world \<Rightarrow> world \<Rightarrow> effect list \<Rightarrow> bool" where
  "run_step cfg n w w' es =
     (let S = Scheduler w; S' = Scheduler w';
          N = unat (SCHTBL_SLOTS cfg); k = unat (NextSlotNumber S) in
      Out w' = Out w @ es \<and>
      slots_run es = map (\<lambda>j. of_nat ((k + j) mod N)) [0..<n] \<and>
      table_ok cfg S' \<and>
      NextSlotNumber S' = of_nat ((k + n) mod N) \<and>
      TablePassCount S' = TablePassCount S + of_nat ((k + n) div N) \<and>
      SlotsProcessedCount S' = SlotsProcessedCount S + of_nat n \<and>
      executor_frame S' = executor_frame S)"

text \<open>
  Modelled from the spec: the entry validator \<open>SCHTBL_ValidEntry\<close> of the schedule table
  module, which scheduler.c calls and which is defined elsewhere.  The spec requires of it
  that an invalid enable flag value and an invalid period/offset relationship
  (\<open>Offset < Period\<close> must hold) are rejected.
\<close>

definition SCHTBL_ValidEntry_spec :: "uint16 \<Rightarrow> uint32 \<Rightarrow> uint32 \<Rightarrow> uint32 \<Rightarrow> bool" where
  "SCHTBL_ValidEntry_spec En P Off M = ((En = 1 \<or> En = 0) \<and> Off < P)"

section \<open>A concrete configuration and concrete states\<close>

definition cfg100 :: config where
  "cfg100 =
     \<lparr>SCHTBL_SLOTS = 100,
      SCHTBL_ACTIVITIES_PER_SLOT = 1,
      SCHEDULER_MAX_LAG_COUNT = 50,
      SCHEDULER_MAX_SLOTS_PER_WAKEUP = 5,
      SCHEDULER_TIME_SYNC_SLOT = 99,
      SCHEDULER_MAX_NOISY_MF = 2,
      SCHEDULER_MAX_SYNC_ATTEMPTS = 500,
      SCHEDULER_NORMAL_SLOT_PERIOD = 10000,
      SCHEDULER_SHORT_SLOT_PERIOD = 10000,
      SCHEDULER_SYNC_SLOT_PERIOD = 15000,
      SCHEDULER_SYNCH_FALSE = 0,
      SCHEDULER_SYNCH_TO_MINOR = 1,
      SCHEDULER_SYNCH_TO_MAJOR = 2,
      SCHEDULER_SYNCH_MAJOR_PENDING = 4,
      CFE_TIME_FLAG_FLYING = 16\<rparr>"

definition ev_ok :: env where
  "ev_ok =
     \<lparr>OS_BinSemTake = CFE_SUCCESS,
      CFE_TIME_GetClockInfo = 0,
      CFE_TIME_GetMETsubsecs = 0,
      CFE_TIME_Sub2MicroSecs = (\<lambda>SubSeconds. 25000),
      MSGTBL_GetMsgPtr = (\<lambda>MsgId. if MsgId < 8 then Some [] else None),
      CFE_SB_TransmitMsg = (\<lambda>t Msg. CFE_SUCCESS),
      SCHTBL_GetEntryIndex = (\<lambda>Slot Activity. if Slot < 100 \<and> Activity < 1 then Some Slot else None),
      SCHTBL_ValidEntry = SCHTBL_ValidEntry_spec,
      CMDMGR_ValidBoolArg = (\<lambda>BoolArg. BoolArg = 1 \<or> BoolArg = 0)\<rparr>"

definition entry41 :: SCHTBL_Entry where
  "entry41 = \<lparr>Enabled = True, Period = 4, Offset = 1, MsgTblIndex = 3\<rparr>"

definition entry_off :: SCHTBL_Entry where
  "entry_off = \<lparr>Enabled = False, Period = 4, Offset = 1, MsgTblIndex = 3\<rparr>"

text \<open>An entry that violates \<open>Offset < Period\<close>, disabled and enabled.\<close>

definition entry_bad_off :: SCHTBL_Entry where
  "entry_bad_off = \<lparr>Enabled = False, Period = 0, Offset = 0, MsgTblIndex = 3\<rparr>"

definition entry_bad :: SCHTBL_Entry where
  "entry_bad = \<lparr>Enabled = True, Period = 0, Offset = 0, MsgTblIndex = 3\<rparr>"

definition sched0 :: SCHEDULER_Class where
  "sched0 =
     \<lparr>MsgTbl = [],
      SchTbl = replicate 100 entry41,
      SlotsProcessedCount = 0,
      SkippedSlotsCount = 0,
      MultipleSlotsCount = 0,
      SameSlotCount = 0,
      ScheduleActivitySuccessCount = 0,
      ScheduleActivityFailureCount = 0,
      ValidMajorFrameCount = 0,
      MissedMajorFrameCount = 0,
      UnexpectedMajorFrameCount = 0,
      TablePassCount = 5,
      ConsecutiveNoisyFrameCounter = 0,
      SendNoisyMajorFrameMsg = True,
      IgnoreMajorFrame = False,
      UnexpectedMajorFrame = False,
      SyncToMET = 0,
      MajorFrameSource = SCHEDULER_MF_SOURCE_CFE_TIME,
      NextSlotNumber = 0,
      MinorFramesSinceTone = 0,
      LastSyncMETSlot = 0,
      SyncAttemptsLeft = 0,
      WorstCaseSlotsPerMinorFrame = 1,
      LastProcessCount = 1\<rparr>"

definition world0 :: world where
  "world0 = \<lparr>Scheduler = sched0, Out = []\<rparr>"

text \<open>A wakeup in slot \<open>cur\<close> while slot \<open>next\<close> is the next to process.\<close>

definition world_at :: "uint32 \<Rightarrow> uint32 \<Rightarrow> world" where
  "world_at next cur =
     world0\<lparr>Scheduler := sched0\<lparr>NextSlotNumber := next, MinorFramesSinceTone := cur\<rparr>\<rparr>"



text \<open>Minor frames synchronized to the MET, with the last major frame seen in MET slot 5.\<close>

definition sched_met :: SCHEDULER_Class where
  "sched_met = sched0\<lparr>SyncToMET := 1, LastSyncMETSlot := 5\<rparr>"

text \<open>A table whose entry 0 is disabled and violates \<open>Offset < Period\<close>.\<close>

definition world_bad :: world where
  "world_bad = world0\<lparr>Scheduler := sched0\<lparr>SchTbl := (replicate 100 entry41)[0 := entry_bad_off]\<rparr>\<rparr>"

definition world_bad_loaded :: world where
  "world_bad_loaded = world0\<lparr>Scheduler := sched0\<lparr>SchTbl := (replicate 100 entry41)[0 := entry_bad]\<rparr>\<rparr>"

text \<open>A table whose entry 0 is disabled and satisfies \<open>Offset < Period\<close>.\<close>

definition world_off :: world where
  "world_off = world0\<lparr>Scheduler := sched0\<lparr>SchTbl := (replicate 100 entry41)[0 := entry_off]\<rparr>\<rparr>"

text \<open>The command to enable entry 0, and a command to load an entry with \<open>Offset = Period\<close>.\<close>

definition cmd_enable :: SCHEDULER_ConfigSchEntryCmdMsg where
  "cmd_enable = \<lparr>CfgSlot = 0, CfgActivity = 0, CfgEnabled = 1\<rparr>"

definition cmd_load_bad :: SCHEDULER_LoadSchEntryCmdMsg where
  "cmd_load_bad =
     \<lparr>LdSlot = 0, LdActivity = 0, LdEnabled = 1, LdPeriod = 4, LdOffset = 4, LdMsgTblIndex = 3\<rparr>"

text \<open>
  A table of two slots with four activities each.  On pass 5 the first three entries of
  slot 0 are due and the fourth is not.  The message table holds the messages 0 to 7, so
  the lookup of message 9 misses; the software bus refuses message 3 and accepts every
  other message.
\<close>

definition cfg2x4 :: config where
  "cfg2x4 = cfg100\<lparr>SCHTBL_SLOTS := 2, SCHTBL_ACTIVITIES_PER_SLOT := 4, SCHEDULER_TIME_SYNC_SLOT := 1\<rparr>"

definition ev_mixed :: env where
  "ev_mixed =
     ev_ok\<lparr>MSGTBL_GetMsgPtr := (\<lambda>MsgId. if MsgId < 8 then Some [ucast MsgId] else None),
           CFE_SB_TransmitMsg := (\<lambda>t Msg. if Msg = [3] then CFE_STATUS_ERROR (- 1) else CFE_SUCCESS)\<rparr>"

definition entry_msg :: "uint32 \<Rightarrow> SCHTBL_Entry" where
  "entry_msg MsgId = \<lparr>Enabled = True, Period = 4, Offset = 1, MsgTblIndex = MsgId\<rparr>"

definition entry42 :: SCHTBL_Entry where
  "entry42 = \<lparr>Enabled = True, Period = 4, Offset = 2, MsgTblIndex = 6\<rparr>"

definition world_mixed :: world where
  "world_mixed =
     world0\<lparr>Scheduler := sched0\<lparr>SchTbl :=
       [entry_msg 3, entry_msg 9, entry_msg 5, entry42, entry41, entry41, entry41, entry41]\<rparr>\<rparr>"

section \<open>The effect observers\<close>

lemma slots_run_append [simp]: "slots_run (xs @ ys) = slots_run xs @ slots_run ys"
  by (simp add: slots_run_def)

lemma dispatched_append [simp]: "dispatched (xs @ ys) = dispatched xs @ dispatched ys"
  by (simp add: dispatched_def)

lemma failed_append [simp]: "failed (xs @ ys) = failed xs @ failed ys"
  by (simp add: failed_def)

lemma succeeded_append [simp]: "succeeded (xs @ ys) = succeeded xs @ succeeded ys"
  by (simp add: succeeded_def)

lemma observe_Nil [simp]:
  "slots_run [] = []" "dispatched [] = []" "failed [] = []" "succeeded [] = []"
  by (simp_all add: slots_run_def dispatched_def failed_def succeeded_def)

lemma observe_Dispatch [simp]:
  "slots_run [Dispatch i m st] = []"
  "dispatched [Dispatch i m st] = [(i, m)]"
  "failed [Dispatch i m st] = (if st = CFE_SUCCESS then [] else [i])"
  "succeeded [Dispatch i m st] = (if st = CFE_SUCCESS then [i] else [])"
  by (simp_all add: slots_run_def dispatched_def failed_def succeeded_def)

lemma observe_SlotRun [simp]:
  "slots_run (SlotRun n # es) = n # slots_run es"
  "dispatched (SlotRun n # es) = dispatched es"
  "failed (SlotRun n # es) = failed es"
  "succeeded (SlotRun n # es) = succeeded es"
  by (simp_all add: slots_run_def dispatched_def failed_def succeeded_def)

lemma new_out_append: "Out w' = Out w @ es \<Longrightarrow> new_out w w' = es"
  by (simp add: new_out_def)

lemma list_eq_nth4:
  assumes "length xs = 4"
  shows "xs = [xs ! 0, xs ! 1, xs ! 2, xs ! 3]"
  using assms by (auto simp: eval_nat_numeral length_Suc_conv)

lemma list_eq_nth2:
  assumes "length xs = 2"
  shows "xs = [xs ! 0, xs ! 1]"
  using assms by (auto simp: eval_nat_numeral length_Suc_conv)

section \<open>The loop over the entries of a slot\<close>

lemma disable_entries_Nil [simp]: "disable_entries [] tbl = tbl"
  by (simp add: disable_entries_def map_nth)

lemma length_disable_entries [simp]: "length (disable_entries fs tbl) = length tbl"
  by (simp add: disable_entries_def)

lemma nth_disable_entries:
  "j < length tbl \<Longrightarrow>
   disable_entries fs tbl ! j = (if j \<in> set fs then (tbl ! j)\<lparr>Enabled := False\<rparr> else tbl ! j)"
  by (simp add: disable_entries_def)

lemma disable_entries_single:
  "i < length tbl \<Longrightarrow> disable_entries [i] tbl = tbl[i := (tbl ! i)\<lparr>Enabled := False\<rparr>]"
  by (rule nth_equalityI) (auto simp: nth_disable_entries)

lemma disable_entries_append:
  "disable_entries fs2 (disable_entries fs1 tbl) = disable_entries (fs1 @ fs2) tbl"
  by (rule nth_equalityI) (auto simp: nth_disable_entries)

lemma process_entry_step:
  assumes "process_entry ev i w = Inr w'"
  shows "i < length (SchTbl (Scheduler w)) \<and> (\<exists>es. entries_step ev [i] w w' es)"
  using assms
  unfolding process_entry_def Let_def entries_step_def due_def
  by (auto split: if_splits simp: disable_entries_single)

lemma entries_step_Nil: "entries_step ev [] w w []"
  by (simp add: entries_step_def)

lemma entries_stepD:
  assumes "entries_step ev js w w' es"
  shows "Out w' = Out w @ es"
    and "slots_run es = []"
    and "dispatched es = map (\<lambda>i. (i, MsgTblIndex (SchTbl (Scheduler w) ! i))) (filter (due (Scheduler w)) js)"
    and "set (failed es) \<union> set (succeeded es) = set (filter (due (Scheduler w)) js)"
    and "length (failed es) + length (succeeded es) = length (dispatched es)"
    and "list_all (\<lambda>i. \<exists>t. send_status ev t (MsgTblIndex (SchTbl (Scheduler w) ! i)) \<noteq> CFE_SUCCESS) (failed es)"
    and "list_all (\<lambda>i. \<exists>t. send_status ev t (MsgTblIndex (SchTbl (Scheduler w) ! i)) = CFE_SUCCESS) (succeeded es)"
    and "Scheduler w' = (Scheduler w)\<lparr>SchTbl := disable_entries (failed es) (SchTbl (Scheduler w)),
             ScheduleActivitySuccessCount :=
               ScheduleActivitySuccessCount (Scheduler w) + of_nat (length (succeeded es)),
             ScheduleActivityFailureCount :=
               ScheduleActivityFailureCount (Scheduler w) + of_nat (length (failed es))\<rparr>"
  using assms unfolding entries_step_def Let_def by blast+

lemma entries_step_fields:
  assumes "entries_step ev js w w' es"
  shows "SchTbl (Scheduler w') = disable_entries (failed es) (SchTbl (Scheduler w))"
    and "length (SchTbl (Scheduler w')) = length (SchTbl (Scheduler w))"
    and "TablePassCount (Scheduler w') = TablePassCount (Scheduler w)"
  by (simp_all add: entries_stepD(8) [OF assms])

lemma entries_step_Cons:
  assumes 1: "entries_step ev [i] w w1 es1" and 2: "entries_step ev js w1 w' es2"
    and i: "i \<notin> set js" "i < length (SchTbl (Scheduler w))"
    and js: "\<forall>j\<in>set js. j < length (SchTbl (Scheduler w))"
  shows "entries_step ev (i # js) w w' (es1 @ es2)"
proof -
  let ?S = "Scheduler w" and ?S1 = "Scheduler w1" and ?S' = "Scheduler w'"
  note tpc = entries_step_fields(3) [OF 1]
    and tbl1 = entries_step_fields(1) [OF 1] and tbl2 = entries_step_fields(1) [OF 2]
  have f1: "set (failed es1) \<subseteq> {i}"
    using entries_stepD(4) [OF 1] by (auto split: if_splits)
  have same: "SchTbl ?S1 ! j = SchTbl ?S ! j" if "j \<in> set js" for j
  proof -
    from that i js have "j \<notin> set (failed es1)" "j < length (SchTbl ?S)" using f1 by auto
    then show ?thesis by (simp add: tbl1 nth_disable_entries)
  qed
  have due_eq: "due ?S1 j = due ?S j" if "j \<in> set js" for j
    using same [OF that] tpc by (simp add: due_def)
  have filt: "filter (due ?S1) js = filter (due ?S) js"
    by (rule filter_cong) (simp_all add: due_eq)
  have sub2: "set (failed es2) \<union> set (succeeded es2) = set (filter (due ?S) js)"
    using entries_stepD(4) [OF 2] filt by simp
  have tbl: "SchTbl ?S' = disable_entries (failed (es1 @ es2)) (SchTbl ?S)"
    by (simp add: tbl2 tbl1 disable_entries_append)
  have disp: "dispatched (es1 @ es2) =
      map (\<lambda>i. (i, MsgTblIndex (SchTbl ?S ! i))) (filter (due ?S) (i # js))"
  proof -
    have "dispatched es2 = map (\<lambda>i. (i, MsgTblIndex (SchTbl ?S1 ! i))) (filter (due ?S) js)"
      using entries_stepD(3) [OF 2] filt by simp
    also have "\<dots> = map (\<lambda>i. (i, MsgTblIndex (SchTbl ?S ! i))) (filter (due ?S) js)"
      by (rule map_cong) (simp_all add: same)
    finally show ?thesis using entries_stepD(3) [OF 1] by simp
  qed
  have un: "set (failed (es1 @ es2)) \<union> set (succeeded (es1 @ es2)) = set (filter (due ?S) (i # js))"
    using entries_stepD(4) [OF 1] sub2 by auto
  have cnt: "length (failed (es1 @ es2)) + length (succeeded (es1 @ es2)) = length (dispatched (es1 @ es2))"
    using entries_stepD(5) [OF 1] entries_stepD(5) [OF 2] by simp
  have out: "Out w' = Out w @ es1 @ es2" "slots_run (es1 @ es2) = []"
    using entries_stepD(1,2) [OF 1] entries_stepD(1,2) [OF 2] by simp_all
  have in2: "j \<in> set js" if "j \<in> set (failed es2) \<union> set (succeeded es2)" for j
    using that sub2 by auto
  have st_f: "list_all (\<lambda>i. \<exists>t. send_status ev t (MsgTblIndex (SchTbl ?S ! i)) \<noteq> CFE_SUCCESS)
      (failed (es1 @ es2))"
    using entries_stepD(6) [OF 1] entries_stepD(6) [OF 2] same in2
    by (auto simp: list_all_iff)
  have st_s: "list_all (\<lambda>i. \<exists>t. send_status ev t (MsgTblIndex (SchTbl ?S ! i)) = CFE_SUCCESS)
      (succeeded (es1 @ es2))"
    using entries_stepD(7) [OF 1] entries_stepD(7) [OF 2] same in2
    by (auto simp: list_all_iff)
  have S': "?S' = ?S\<lparr>SchTbl := disable_entries (failed (es1 @ es2)) (SchTbl ?S),
             ScheduleActivitySuccessCount :=
               ScheduleActivitySuccessCount ?S + of_nat (length (succeeded (es1 @ es2))),
             ScheduleActivityFailureCount :=
               ScheduleActivityFailureCount ?S + of_nat (length (failed (es1 @ es2)))\<rparr>"
    unfolding entries_stepD(8) [OF 2] entries_stepD(8) [OF 1]
    by (simp add: add.assoc disable_entries_append)
  show ?thesis
    unfolding entries_step_def Let_def
    using out disp un cnt st_f st_s S' by blast
qed

lemma process_entries_step:
  assumes "process_entries ev js w = Inr w'" "distinct js"
  shows "(\<forall>j\<in>set js. j < length (SchTbl (Scheduler w))) \<and> (\<exists>es. entries_step ev js w w' es)"
  using assms
proof (induction js arbitrary: w)
  case Nil
  then show ?case using entries_step_Nil by auto
next
  case (Cons i js)
  from Cons.prems obtain w1 where 1: "process_entry ev i w = Inr w1"
    and 2: "process_entries ev js w1 = Inr w'"
    by (auto split: sum.splits)
  from process_entry_step [OF 1] obtain es1 where i: "i < length (SchTbl (Scheduler w))"
    and s1: "entries_step ev [i] w w1 es1" by blast
  from Cons.IH [OF 2] Cons.prems(2) obtain es2
    where js1: "\<forall>j\<in>set js. j < length (SchTbl (Scheduler w1))"
    and s2: "entries_step ev js w1 w' es2" by auto
  have js: "\<forall>j\<in>set js. j < length (SchTbl (Scheduler w))"
    using js1 entries_step_fields(2) [OF s1] by simp
  have "entries_step ev (i # js) w w' (es1 @ es2)"
    using s1 s2 Cons.prems(2) i js by (intro entries_step_Cons) auto
  then show ?case using i js by auto
qed

lemma entries_step_periods_ok:
  assumes "entries_step ev js w w' es" "periods_ok (Scheduler w)"
  shows "periods_ok (Scheduler w')"
  using assms(2) unfolding periods_ok_def entries_step_fields(1) [OF assms(1)]
  by (auto simp: list_all_length nth_disable_entries)

lemma process_entry_total:
  assumes "i < length (SchTbl (Scheduler w))" "periods_ok (Scheduler w)"
  shows "\<exists>w'. process_entry ev i w = Inr w'"
proof -
  have "Enabled (SchTbl (Scheduler w) ! i) \<longrightarrow> Period (SchTbl (Scheduler w) ! i) \<noteq> 0"
    using assms by (auto simp: periods_ok_def list_all_length)
  then show ?thesis using assms(1)
    by (simp add: process_entry_def Let_def)
qed

lemma process_entries_total:
  assumes "\<forall>j\<in>set js. j < length (SchTbl (Scheduler w))" "periods_ok (Scheduler w)"
  shows "\<exists>w'. process_entries ev js w = Inr w'"
  using assms
proof (induction js arbitrary: w)
  case Nil
  then show ?case by simp
next
  case (Cons i js)
  from Cons.prems obtain w1 where 1: "process_entry ev i w = Inr w1"
    using process_entry_total [of i w ev] by auto
  from process_entry_step [OF 1] obtain es where s: "entries_step ev [i] w w1 es" by blast
  have "\<forall>j\<in>set js. j < length (SchTbl (Scheduler w1))"
    using Cons.prems(1) entries_step_fields(2) [OF s] by simp
  moreover have "periods_ok (Scheduler w1)"
    using entries_step_periods_ok [OF s] Cons.prems(2) .
  ultimately obtain w' where "process_entries ev js w1 = Inr w'"
    using Cons.IH by blast
  then show ?case using 1 by simp
qed

section \<open>One slot\<close>

lemma distinct_slot_indices: "distinct (slot_indices cfg n)"
  by (simp add: slot_indices_def)

lemma slot_indices_in_range:
  assumes "n < SCHTBL_SLOTS cfg"
    and "length tbl = unat (SCHTBL_SLOTS cfg) * SCHTBL_ACTIVITIES_PER_SLOT cfg"
    and "j \<in> set (slot_indices cfg n)"
  shows "j < length tbl"
proof -
  let ?A = "SCHTBL_ACTIVITIES_PER_SLOT cfg"
  have "Suc (unat n) \<le> unat (SCHTBL_SLOTS cfg)"
    using assms(1) by (simp add: word_less_nat_alt)
  then have "Suc (unat n) * ?A \<le> unat (SCHTBL_SLOTS cfg) * ?A"
    by (rule mult_le_mono1)
  moreover have "j < Suc (unat n) * ?A"
    using assms(3) by (simp add: slot_indices_def)
  ultimately show ?thesis using assms(2) by simp
qed

lemma unat_next:
  fixes k :: uint32
  assumes "k < N"
  shows "unat (if k + 1 = N then 0 else k + 1) = (unat k + 1) mod unat N"
proof (cases "k + 1 = N")
  case True
  have "unat (k + 1) = unat k + 1" using assms by unat_arith
  then show ?thesis using True by simp
next
  case False
  have "unat (k + 1) = unat k + 1" using assms by unat_arith
  moreover have "k + 1 < N" using assms False by uint_arith
  ultimately show ?thesis using False by (simp add: word_less_nat_alt)
qed

lemma next_in_range:
  fixes k :: uint32
  assumes "k < N"
  shows "(if k + 1 = N then 0 else k + 1) < N"
  using assms by uint_arith

lemma next_wraps_iff:
  fixes k :: uint32
  assumes "k < N"
  shows "(if k + 1 = N then 0 else k + 1) = 0 \<longleftrightarrow> k + 1 = N"
  using assms by uint_arith

lemma executor_frameD:
  assumes "executor_frame S' = executor_frame S"
  shows "MsgTbl S' = MsgTbl S"
    and "SkippedSlotsCount S' = SkippedSlotsCount S"
    and "MultipleSlotsCount S' = MultipleSlotsCount S"
    and "SameSlotCount S' = SameSlotCount S"
    and "ValidMajorFrameCount S' = ValidMajorFrameCount S"
    and "MissedMajorFrameCount S' = MissedMajorFrameCount S"
    and "UnexpectedMajorFrameCount S' = UnexpectedMajorFrameCount S"
    and "ConsecutiveNoisyFrameCounter S' = ConsecutiveNoisyFrameCounter S"
    and "SendNoisyMajorFrameMsg S' = SendNoisyMajorFrameMsg S"
    and "IgnoreMajorFrame S' = IgnoreMajorFrame S"
    and "UnexpectedMajorFrame S' = UnexpectedMajorFrame S"
    and "SyncToMET S' = SyncToMET S"
    and "MajorFrameSource S' = MajorFrameSource S"
    and "MinorFramesSinceTone S' = MinorFramesSinceTone S"
    and "LastSyncMETSlot S' = LastSyncMETSlot S"
    and "SyncAttemptsLeft S' = SyncAttemptsLeft S"
    and "WorstCaseSlotsPerMinorFrame S' = WorstCaseSlotsPerMinorFrame S"
    and "LastProcessCount S' = LastProcessCount S"
proof -
  have f: "f (executor_frame S') = f (executor_frame S)" for f :: "SCHEDULER_Class \<Rightarrow> 'a"
    using assms by simp
  show "MsgTbl S' = MsgTbl S"
    and "SkippedSlotsCount S' = SkippedSlotsCount S"
    and "MultipleSlotsCount S' = MultipleSlotsCount S"
    and "SameSlotCount S' = SameSlotCount S"
    and "ValidMajorFrameCount S' = ValidMajorFrameCount S"
    and "MissedMajorFrameCount S' = MissedMajorFrameCount S"
    and "UnexpectedMajorFrameCount S' = UnexpectedMajorFrameCount S"
    and "ConsecutiveNoisyFrameCounter S' = ConsecutiveNoisyFrameCounter S"
    and "SendNoisyMajorFrameMsg S' = SendNoisyMajorFrameMsg S"
    and "IgnoreMajorFrame S' = IgnoreMajorFrame S"
    and "UnexpectedMajorFrame S' = UnexpectedMajorFrame S"
    and "SyncToMET S' = SyncToMET S"
    and "MajorFrameSource S' = MajorFrameSource S"
    and "MinorFramesSinceTone S' = MinorFramesSinceTone S"
    and "LastSyncMETSlot S' = LastSyncMETSlot S"
    and "SyncAttemptsLeft S' = SyncAttemptsLeft S"
    and "WorstCaseSlotsPerMinorFrame S' = WorstCaseSlotsPerMinorFrame S"
    and "LastProcessCount S' = LastProcessCount S"
    using f [of MsgTbl] f [of SkippedSlotsCount] f [of MultipleSlotsCount] f [of SameSlotCount]
      f [of ValidMajorFrameCount] f [of MissedMajorFrameCount] f [of UnexpectedMajorFrameCount]
      f [of ConsecutiveNoisyFrameCounter] f [of SendNoisyMajorFrameMsg] f [of IgnoreMajorFrame]
      f [of UnexpectedMajorFrame] f [of SyncToMET] f [of MajorFrameSource]
      f [of MinorFramesSinceTone] f [of LastSyncMETSlot] f [of SyncAttemptsLeft]
      f [of WorstCaseSlotsPerMinorFrame] f [of LastProcessCount]
    by (simp_all add: executor_frame_def)
qed

lemma ProcessNextSlot_step:
  assumes "ProcessNextSlot cfg ev w = Inr (r, w')"
  shows "r = CFE_SUCCESS \<and> (\<exists>es. slot_step cfg ev w w' es)"
proof -
  let ?n = "NextSlotNumber (Scheduler w)"
  let ?w0 = "w\<lparr>Out := Out w @ [SlotRun ?n]\<rparr>"
  from assms obtain w1 where 1: "process_entries ev (slot_indices cfg ?n) ?w0 = Inr w1"
    and r: "r = CFE_SUCCESS" and w': "w' = w1\<lparr>Scheduler := advance_slot cfg (Scheduler w1)\<rparr>"
    by (auto simp: ProcessNextSlot_def Let_def split: sum.splits)
  from process_entries_step [OF 1 distinct_slot_indices] obtain es
    where s: "entries_step ev (slot_indices cfg ?n) ?w0 w1 es" by blast
  have "slot_step cfg ev w w' es"
    unfolding slot_step_def Let_def w'
    using entries_stepD [OF s] by simp
  then show ?thesis using r by blast
qed

lemma ProcessNextSlot_total:
  assumes "table_ok cfg (Scheduler w)" "NextSlotNumber (Scheduler w) < SCHTBL_SLOTS cfg"
  shows "\<exists>w'. ProcessNextSlot cfg ev w = Inr (CFE_SUCCESS, w')"
proof -
  let ?n = "NextSlotNumber (Scheduler w)"
  let ?w0 = "w\<lparr>Out := Out w @ [SlotRun ?n]\<rparr>"
  have "\<forall>j\<in>set (slot_indices cfg ?n). j < length (SchTbl (Scheduler ?w0))"
    using assms slot_indices_in_range [of ?n cfg "SchTbl (Scheduler w)"]
    by (auto simp: table_ok_def)
  moreover have "periods_ok (Scheduler ?w0)"
    using assms(1) by (simp add: table_ok_def periods_ok_def)
  ultimately obtain w1 where "process_entries ev (slot_indices cfg ?n) ?w0 = Inr w1"
    using process_entries_total by blast
  then show ?thesis by (simp add: ProcessNextSlot_def Let_def)
qed

lemma slot_stepD:
  assumes "slot_step cfg ev w w' es"
  shows "Out w' = Out w @ SlotRun (NextSlotNumber (Scheduler w)) # es"
    and "slots_run es = []"
    and "dispatched es = map (\<lambda>i. (i, MsgTblIndex (SchTbl (Scheduler w) ! i)))
           (filter (due (Scheduler w)) (slot_indices cfg (NextSlotNumber (Scheduler w))))"
    and "set (failed es) \<union> set (succeeded es) =
           set (filter (due (Scheduler w)) (slot_indices cfg (NextSlotNumber (Scheduler w))))"
    and "length (failed es) + length (succeeded es) = length (dispatched es)"
    and "list_all (\<lambda>i. \<exists>t. send_status ev t (MsgTblIndex (SchTbl (Scheduler w) ! i)) \<noteq> CFE_SUCCESS) (failed es)"
    and "list_all (\<lambda>i. \<exists>t. send_status ev t (MsgTblIndex (SchTbl (Scheduler w) ! i)) = CFE_SUCCESS) (succeeded es)"
  using assms unfolding slot_step_def Let_def by blast+

lemma slot_step_fields:
  assumes "slot_step cfg ev w w' es"
  shows "SchTbl (Scheduler w') = disable_entries (failed es) (SchTbl (Scheduler w))"
    and "NextSlotNumber (Scheduler w') =
           (if NextSlotNumber (Scheduler w) + 1 = SCHTBL_SLOTS cfg then 0
            else NextSlotNumber (Scheduler w) + 1)"
    and "TablePassCount (Scheduler w') =
           (if NextSlotNumber (Scheduler w) + 1 = SCHTBL_SLOTS cfg
            then TablePassCount (Scheduler w) + 1 else TablePassCount (Scheduler w))"
    and "SlotsProcessedCount (Scheduler w') = SlotsProcessedCount (Scheduler w) + 1"
    and "ScheduleActivitySuccessCount (Scheduler w') =
           ScheduleActivitySuccessCount (Scheduler w) + of_nat (length (succeeded es))"
    and "ScheduleActivityFailureCount (Scheduler w') =
           ScheduleActivityFailureCount (Scheduler w) + of_nat (length (failed es))"
    and "executor_frame (Scheduler w') = executor_frame (Scheduler w)"
  using assms by (simp_all add: slot_step_def Let_def advance_slot_def executor_frame_def)

lemma slot_step_table_ok:
  assumes "slot_step cfg ev w w' es" "table_ok cfg (Scheduler w)"
  shows "table_ok cfg (Scheduler w')"
  using assms(2) unfolding table_ok_def slot_step_fields(1) [OF assms(1)]
  by (auto simp: list_all_length nth_disable_entries)

lemma wraps_unat:
  fixes k :: uint32
  assumes "k < N"
  shows "k + 1 = N \<longleftrightarrow> unat k + 1 = unat N"
proof -
  have "unat (k + 1) = unat k + 1" using assms by unat_arith
  then show ?thesis by (metis word_unat_eq_iff)
qed

lemma ProcessNextSlot_slot_step:
  assumes "table_ok cfg (Scheduler w)" "NextSlotNumber (Scheduler w) < SCHTBL_SLOTS cfg"
  shows "\<exists>w' es. ProcessNextSlot cfg ev w = Inr (CFE_SUCCESS, w') \<and> slot_step cfg ev w w' es"
  using ProcessNextSlot_total [OF assms] ProcessNextSlot_step by blast

lemma slot_step_new_out:
  assumes "slot_step cfg ev w w' es"
  shows "dispatched (new_out w w') = dispatched es"
    and "failed (new_out w w') = failed es"
    and "succeeded (new_out w w') = succeeded es"
    and "slots_run (new_out w w') = [NextSlotNumber (Scheduler w)]"
  using slot_stepD(1,2) [OF assms] by (simp_all add: new_out_def)

lemma slot_step_distinct_failed:
  assumes s: "slot_step cfg ev w w' es"
  shows "distinct (failed es)"
proof -
  let ?D = "filter (due (Scheduler w)) (slot_indices cfg (NextSlotNumber (Scheduler w)))"
  have dD: "distinct ?D" by (simp add: distinct_slot_indices)
  have "length (failed es) + length (succeeded es) = length ?D"
    using slot_stepD(5) [OF s] slot_stepD(3) [OF s] by simp
  also have "\<dots> = card (set ?D)"
    using dD by (rule distinct_card [symmetric])
  also have "\<dots> = card (set (failed es) \<union> set (succeeded es))"
    by (simp only: slot_stepD(4) [OF s])
  also have "\<dots> \<le> card (set (failed es)) + card (set (succeeded es))"
    by (rule card_Un_le)
  finally have "length (failed es) + length (succeeded es) \<le>
      card (set (failed es)) + card (set (succeeded es))" .
  moreover have "card (set (failed es)) \<le> length (failed es)"
    "card (set (succeeded es)) \<le> length (succeeded es)"
    by (rule card_length)+
  ultimately have "card (set (failed es)) = length (failed es)" by linarith
  then show ?thesis by (rule card_distinct)
qed

subsection \<open>The dispatches of a slot\<close>

lemma length_dispatch_log [simp]:
  "length (dispatch_log ev S t js) = length (filter (due S) js)"
  by (induction js arbitrary: t) simp_all

lemma dispatch_log_nth:
  "k < length (filter (due S) js) \<Longrightarrow>
   dispatch_log ev S t js ! k =
     Dispatch (filter (due S) js ! k) (MsgTblIndex (SchTbl S ! (filter (due S) js ! k)))
       (case MSGTBL_GetMsgPtr ev (MsgTblIndex (SchTbl S ! (filter (due S) js ! k))) of
          None \<Rightarrow> CFE_SB_NO_MESSAGE
        | Some MsgPtr \<Rightarrow> CFE_SB_TransmitMsg ev (t + k) MsgPtr)"
proof (induction js arbitrary: k t)
  case Nil
  then show ?case by simp
next
  case (Cons i js)
  show ?case
  proof (cases "due S i")
    case True
    show ?thesis
    proof (cases k)
      case 0
      then show ?thesis using True by (simp cong: option.case_cong)
    next
      case (Suc k')
      then have "k' < length (filter (due S) js)" using Cons.prems True by simp
      from Cons.IH [OF this, of "Suc t"] show ?thesis using True Suc
        by (simp cong: option.case_cong)
    qed
  next
    case False
    then show ?thesis using Cons by simp
  qed
qed

lemma dispatch_log_cong:
  assumes "\<forall>j\<in>set js. SchTbl S1 ! j = SchTbl S ! j" "TablePassCount S1 = TablePassCount S"
  shows "dispatch_log ev S1 t js = dispatch_log ev S t js"
  using assms(1)
proof (induction js arbitrary: t)
  case Nil
  then show ?case by simp
next
  case (Cons i js)
  then have "due S1 i = due S i" "SchTbl S1 ! i = SchTbl S ! i"
    using assms(2) by (simp_all add: due_def)
  then show ?case using Cons by simp
qed

lemma dispatch_log_Cons:
  "dispatch_log ev S t (i # js) =
     dispatch_log ev S t [i] @ dispatch_log ev S (t + length (dispatch_log ev S t [i])) js"
  by simp

lemma process_entry_log:
  assumes "process_entry ev i w = Inr w'"
  shows "Out w' = Out w @ dispatch_log ev (Scheduler w) (length (Out w)) [i]"
  using assms
  unfolding process_entry_def Let_def send_status_def
  by (auto simp: due_def split: if_splits)

lemma process_entries_log:
  assumes "process_entries ev js w = Inr w'" "distinct js"
  shows "Out w' = Out w @ dispatch_log ev (Scheduler w) (length (Out w)) js"
  using assms
proof (induction js arbitrary: w)
  case Nil
  then show ?case by simp
next
  case (Cons i js)
  from Cons.prems obtain w1 where 1: "process_entry ev i w = Inr w1"
    and 2: "process_entries ev js w1 = Inr w'"
    by (auto split: sum.splits)
  let ?S = "Scheduler w" and ?S1 = "Scheduler w1"
  from process_entry_step [OF 1] obtain es1 where i: "i < length (SchTbl ?S)"
    and s1: "entries_step ev [i] w w1 es1" by blast
  from process_entries_step [OF 2] Cons.prems(2)
  have js1: "\<forall>j\<in>set js. j < length (SchTbl ?S1)" by simp
  have f1: "set (failed es1) \<subseteq> {i}"
    using entries_stepD(4) [OF s1] by (auto split: if_splits)
  have same: "\<forall>j\<in>set js. SchTbl ?S1 ! j = SchTbl ?S ! j"
  proof
    fix j assume j: "j \<in> set js"
    then have "j \<notin> set (failed es1)" "j < length (SchTbl ?S)"
      using f1 Cons.prems(2) js1 entries_step_fields(2) [OF s1] by auto
    then show "SchTbl ?S1 ! j = SchTbl ?S ! j"
      by (simp add: entries_step_fields(1) [OF s1] nth_disable_entries)
  qed
  note o1 = process_entry_log [OF 1]
  have "Out w' = Out w1 @ dispatch_log ev ?S1 (length (Out w1)) js"
    using Cons.IH [OF 2] Cons.prems(2) by simp
  also have "dispatch_log ev ?S1 (length (Out w1)) js = dispatch_log ev ?S (length (Out w1)) js"
    using same entries_step_fields(3) [OF s1] by (rule dispatch_log_cong)
  finally show ?case
    unfolding dispatch_log_Cons [of ev ?S "length (Out w)" i js] o1 by simp
qed

lemma ProcessNextSlot_log:
  assumes "ProcessNextSlot cfg ev w = Inr (r, w')"
  shows "new_out w w' =
    SlotRun (NextSlotNumber (Scheduler w)) #
    dispatch_log ev (Scheduler w) (Suc (length (Out w))) (slot_indices cfg (NextSlotNumber (Scheduler w)))"
proof -
  let ?n = "NextSlotNumber (Scheduler w)"
  let ?w0 = "w\<lparr>Out := Out w @ [SlotRun ?n]\<rparr>"
  from assms obtain w1 where 1: "process_entries ev (slot_indices cfg ?n) ?w0 = Inr w1"
    and w': "w' = w1\<lparr>Scheduler := advance_slot cfg (Scheduler w1)\<rparr>"
    by (auto simp: ProcessNextSlot_def Let_def split: sum.splits)
  from process_entries_log [OF 1 distinct_slot_indices]
  show ?thesis by (simp add: w' new_out_def)
qed

lemma mem_failed:
  "x \<in> set (failed es) \<longleftrightarrow> (\<exists>k<length es. \<exists>m st. es ! k = Dispatch x m st \<and> st \<noteq> CFE_SUCCESS)"
proof (induction es)
  case Nil
  then show ?case by simp
next
  case (Cons e es)
  have a: "failed (e # es) = failed [e] @ failed es"
    using failed_append [of "[e]" es] by simp
  have b: "x \<in> set (failed [e]) \<longleftrightarrow> (\<exists>m st. e = Dispatch x m st \<and> st \<noteq> CFE_SUCCESS)"
    by (cases e) (auto simp: failed_def)
  have c: "(\<exists>k<length (e # es). P ((e # es) ! k)) \<longleftrightarrow> P e \<or> (\<exists>k<length es. P (es ! k))" for P
    by (metis in_set_conv_nth set_ConsD list.set_intros(1) list.set_intros(2))
  show ?case unfolding a using Cons.IH b c [of "\<lambda>e. \<exists>m st. e = Dispatch x m st \<and> st \<noteq> CFE_SUCCESS"]
    by auto
qed

lemma failed_dispatch_log_iff:
  assumes "distinct js" "k < length (filter (due S) js)"
  shows "filter (due S) js ! k \<in> set (failed (dispatch_log ev S t js)) \<longleftrightarrow>
    (case MSGTBL_GetMsgPtr ev (MsgTblIndex (SchTbl S ! (filter (due S) js ! k))) of
       None \<Rightarrow> CFE_SB_NO_MESSAGE
     | Some MsgPtr \<Rightarrow> CFE_SB_TransmitMsg ev (t + k) MsgPtr) \<noteq> CFE_SUCCESS"
proof -
  let ?ds = "filter (due S) js"
  let ?st = "\<lambda>k. case MSGTBL_GetMsgPtr ev (MsgTblIndex (SchTbl S ! (?ds ! k))) of
       None \<Rightarrow> CFE_SB_NO_MESSAGE
     | Some MsgPtr \<Rightarrow> CFE_SB_TransmitMsg ev (t + k) MsgPtr"
  have d: "distinct ?ds" using assms(1) by simp
  have n: "dispatch_log ev S t js ! j = Dispatch (?ds ! j) (MsgTblIndex (SchTbl S ! (?ds ! j))) (?st j)"
    if "j < length ?ds" for j
    using dispatch_log_nth [OF that] .
  show ?thesis
  proof
    assume "?ds ! k \<in> set (failed (dispatch_log ev S t js))"
    then obtain j m st where j: "j < length ?ds"
      and e: "dispatch_log ev S t js ! j = Dispatch (?ds ! k) m st" and st: "st \<noteq> CFE_SUCCESS"
      unfolding mem_failed by auto
    have "Dispatch (?ds ! j) (MsgTblIndex (SchTbl S ! (?ds ! j))) (?st j) = Dispatch (?ds ! k) m st"
      by (rule trans [OF n [OF j, symmetric] e])
    then have 1: "?ds ! j = ?ds ! k" and 2: "?st j = st"
      unfolding effect.inject by blast+
    from 1 d j assms(2) have "j = k" by (simp add: nth_eq_iff_index_eq)
    then show "?st k \<noteq> CFE_SUCCESS" using st 2 by blast
  next
    assume "?st k \<noteq> CFE_SUCCESS"
    then show "?ds ! k \<in> set (failed (dispatch_log ev S t js))"
      unfolding mem_failed using n [OF assms(2)] assms(2) by auto
  qed
qed

section \<open>Several slots in a row\<close>

lemma run_stepD:
  assumes "run_step cfg n w w' es"
  shows "Out w' = Out w @ es"
    and "slots_run es =
           map (\<lambda>j. of_nat ((unat (NextSlotNumber (Scheduler w)) + j) mod unat (SCHTBL_SLOTS cfg))) [0..<n]"
    and "table_ok cfg (Scheduler w')"
    and "NextSlotNumber (Scheduler w') =
           of_nat ((unat (NextSlotNumber (Scheduler w)) + n) mod unat (SCHTBL_SLOTS cfg))"
    and "TablePassCount (Scheduler w') = TablePassCount (Scheduler w) +
           of_nat ((unat (NextSlotNumber (Scheduler w)) + n) div unat (SCHTBL_SLOTS cfg))"
    and "SlotsProcessedCount (Scheduler w') = SlotsProcessedCount (Scheduler w) + of_nat n"
    and "executor_frame (Scheduler w') = executor_frame (Scheduler w)"
  using assms unfolding run_step_def Let_def by blast+

lemma run_step_0:
  assumes "table_ok cfg (Scheduler w)" "NextSlotNumber (Scheduler w) < SCHTBL_SLOTS cfg"
  shows "run_step cfg 0 w w []"
  using assms by (simp add: run_step_def Let_def word_less_nat_alt)

lemma run_step_Suc:
  assumes s: "slot_step cfg ev w w1 es1" and r: "run_step cfg m w1 w' es2"
    and k: "NextSlotNumber (Scheduler w) < SCHTBL_SLOTS cfg"
  shows "run_step cfg (Suc m) w w' (SlotRun (NextSlotNumber (Scheduler w)) # es1 @ es2)"
proof -
  let ?S = "Scheduler w" and ?S1 = "Scheduler w1" and ?S' = "Scheduler w'"
  let ?N = "unat (SCHTBL_SLOTS cfg)" and ?k = "unat (NextSlotNumber ?S)"
  let ?k1 = "unat (NextSlotNumber ?S1)"
  let ?es = "SlotRun (NextSlotNumber (Scheduler w)) # es1 @ es2"
  have kN: "?k < ?N" using k by (simp add: word_less_nat_alt)
  have k1: "?k1 = (?k + 1) mod ?N"
    using unat_next [OF k] by (simp add: slot_step_fields(2) [OF s])
  have wrap: "NextSlotNumber ?S + 1 = SCHTBL_SLOTS cfg \<longleftrightarrow> ?k + 1 = ?N"
  proof -
    have "unat (NextSlotNumber ?S + 1) = ?k + 1" using k by unat_arith
    then show ?thesis by (metis word_unat_eq_iff)
  qed
  have out': "Out w' = Out w @ ?es"
    using slot_stepD(1) [OF s] run_stepD(1) [OF r] by simp
  have idx: "(?k1 + j) mod ?N = (?k + Suc j) mod ?N" for j
    by (simp add: k1 mod_add_left_eq)
  have trace: "slots_run ?es = map (\<lambda>j. of_nat ((?k + j) mod ?N)) [0..<Suc m]"
  proof -
    have "slots_run ?es =
        NextSlotNumber ?S # map (\<lambda>j. of_nat ((?k1 + j) mod ?N)) [0..<m]"
      using slot_stepD(2) [OF s] run_stepD(2) [OF r] by simp
    also have "\<dots> = of_nat ((?k + 0) mod ?N) # map (\<lambda>j. of_nat ((?k + Suc j) mod ?N)) [0..<m]"
      using kN by (simp add: idx)
    also have "\<dots> = map (\<lambda>j. of_nat ((?k + j) mod ?N)) (0 # map Suc [0..<m])"
      by (simp add: comp_def)
    also have "0 # map Suc [0..<m] = [0..<Suc m]"
      by (simp add: upt_conv_Cons map_Suc_upt del: upt_Suc)
    finally show ?thesis .
  qed
  have nxt: "NextSlotNumber ?S' = of_nat ((?k + Suc m) mod ?N)"
    using run_stepD(4) [OF r] idx [of m] by simp
  have d: "(?k + Suc m) div ?N = (if ?k + 1 = ?N then 1 else 0) + (?k1 + m) div ?N"
  proof (cases "?k + 1 = ?N")
    case True
    then have z: "?k1 = 0" using k1 by simp
    have "?k + Suc m = ?N + m" using True by simp
    then have "(?k + Suc m) div ?N = (?N + m) div ?N" by (rule arg_cong)
    also have "\<dots> = 1 + m div ?N"
    proof -
      have "0 < ?N" using kN by simp
      then show ?thesis by (simp add: div_add_self1)
    qed
    finally show ?thesis using True z by simp
  next
    case False
    then have "?k1 = ?k + 1" using k1 kN by simp
    then show ?thesis using False by simp
  qed
  have tpc: "TablePassCount ?S' = TablePassCount ?S + of_nat ((?k + Suc m) div ?N)"
  proof (cases "?k + 1 = ?N")
    case True
    with d have "(?k + Suc m) div ?N = Suc ((?k1 + m) div ?N)" by simp
    moreover have "TablePassCount ?S1 = TablePassCount ?S + 1"
      using slot_step_fields(3) [OF s] wrap True by simp
    ultimately show ?thesis using run_stepD(5) [OF r] by simp
  next
    case False
    with d have "(?k + Suc m) div ?N = (?k1 + m) div ?N" by simp
    moreover have "TablePassCount ?S1 = TablePassCount ?S"
      using slot_step_fields(3) [OF s] wrap False by simp
    ultimately show ?thesis using run_stepD(5) [OF r] by simp
  qed
  have spc: "SlotsProcessedCount ?S' = SlotsProcessedCount ?S + of_nat (Suc m)"
    using run_stepD(6) [OF r] slot_step_fields(4) [OF s] by simp
  have frame: "executor_frame ?S' = executor_frame ?S"
    using run_stepD(7) [OF r] slot_step_fields(7) [OF s] by simp
  show ?thesis
    unfolding run_step_def Let_def
    using out' trace run_stepD(3) [OF r] nxt tpc spc frame by blast
qed

lemma process_slots_run:
  assumes "table_ok cfg (Scheduler w)" "NextSlotNumber (Scheduler w) < SCHTBL_SLOTS cfg"
  shows "\<exists>w' es. process_slots cfg ev ProcessCount CFE_SUCCESS w = Inr (CFE_SUCCESS, w') \<and>
              run_step cfg (unat ProcessCount) w w' es"
  using assms
proof (induction "unat ProcessCount" arbitrary: ProcessCount w)
  case 0
  then have "ProcessCount = 0" by (simp add: unat_eq_0)
  then show ?case
    using run_step_0 [OF "0.prems"] by (auto simp add: process_slots.simps)
next
  case (Suc m)
  from Suc.hyps(2) have nz: "ProcessCount \<noteq> 0" by auto
  then have m: "m = unat (ProcessCount - 1)"
    using Suc.hyps(2) by (simp add: unat_minus_one)
  from ProcessNextSlot_total [OF Suc.prems] obtain w1
    where 1: "ProcessNextSlot cfg ev w = Inr (CFE_SUCCESS, w1)" by blast
  from ProcessNextSlot_step [OF 1] obtain es1 where s: "slot_step cfg ev w w1 es1" by blast
  have ok1: "table_ok cfg (Scheduler w1)"
    using slot_step_table_ok [OF s Suc.prems(1)] .
  have "NextSlotNumber (Scheduler w1) < SCHTBL_SLOTS cfg"
    unfolding slot_step_fields(2) [OF s] using Suc.prems(2) by (rule next_in_range)
  from Suc.hyps(1) [OF m ok1 this] obtain w' es2
    where 2: "process_slots cfg ev (ProcessCount - 1) CFE_SUCCESS w1 = Inr (CFE_SUCCESS, w')"
      and r: "run_step cfg (unat (ProcessCount - 1)) w1 w' es2" by blast
  have "run_step cfg (Suc (unat (ProcessCount - 1))) w w' (SlotRun (NextSlotNumber (Scheduler w)) # es1 @ es2)"
    using run_step_Suc [OF s r Suc.prems(2)] .
  then have "run_step cfg (unat ProcessCount) w w' (SlotRun (NextSlotNumber (Scheduler w)) # es1 @ es2)"
    using m Suc.hyps(2) by simp
  moreover have "process_slots cfg ev ProcessCount CFE_SUCCESS w = Inr (CFE_SUCCESS, w')"
    using nz 1 2 by (subst process_slots.simps) simp
  ultimately show ?case by blast
qed


lemma run_step_one:
  assumes r: "run_step cfg 1 w w' es" and k: "NextSlotNumber (Scheduler w) < SCHTBL_SLOTS cfg"
  shows "slots_run es = [NextSlotNumber (Scheduler w)]"
    and "NextSlotNumber (Scheduler w') =
           (if NextSlotNumber (Scheduler w) + 1 = SCHTBL_SLOTS cfg then 0
            else NextSlotNumber (Scheduler w) + 1)"
    and "TablePassCount (Scheduler w') =
           (if NextSlotNumber (Scheduler w) + 1 = SCHTBL_SLOTS cfg
            then TablePassCount (Scheduler w) + 1 else TablePassCount (Scheduler w))"
    and "SlotsProcessedCount (Scheduler w') = SlotsProcessedCount (Scheduler w) + 1"
proof -
  let ?k = "unat (NextSlotNumber (Scheduler w))" and ?N = "unat (SCHTBL_SLOTS cfg)"
  have kN: "?k < ?N" using k by (simp add: word_less_nat_alt)
  show "slots_run es = [NextSlotNumber (Scheduler w)]"
    using run_stepD(2) [OF r] kN by simp
  have "of_nat ((?k + 1) mod ?N) =
      (if NextSlotNumber (Scheduler w) + 1 = SCHTBL_SLOTS cfg then 0
       else NextSlotNumber (Scheduler w) + 1)"
    using arg_cong [OF unat_next [OF k], of "of_nat :: nat \<Rightarrow> uint32"] by simp
  then show "NextSlotNumber (Scheduler w') =
           (if NextSlotNumber (Scheduler w) + 1 = SCHTBL_SLOTS cfg then 0
            else NextSlotNumber (Scheduler w) + 1)"
    using run_stepD(4) [OF r] by simp
  have "(?k + 1) div ?N = (if ?k + 1 = ?N then 1 else 0)"
    using kN by (auto simp: div_eq_0_iff)
  then show "TablePassCount (Scheduler w') =
           (if NextSlotNumber (Scheduler w) + 1 = SCHTBL_SLOTS cfg
            then TablePassCount (Scheduler w) + 1 else TablePassCount (Scheduler w))"
    using run_stepD(5) [OF r] wraps_unat [OF k] by simp
  show "SlotsProcessedCount (Scheduler w') = SlotsProcessedCount (Scheduler w) + 1"
    using run_stepD(6) [OF r] by simp
qed

lemma rotate_upt:
  assumes "k < N"
  shows "map (\<lambda>j. (k + j) mod N) [0..<N] = [k..<N] @ [0..<k]"
proof (rule nth_equalityI)
  show "length (map (\<lambda>j. (k + j) mod N) [0..<N]) = length ([k..<N] @ [0..<k])"
    using assms by simp
next
  fix i assume "i < length (map (\<lambda>j. (k + j) mod N) [0..<N])"
  then have i: "i < N" by simp
  show "map (\<lambda>j. (k + j) mod N) [0..<N] ! i = ([k..<N] @ [0..<k]) ! i"
  proof (cases "i < N - k")
    case True
    then have "k + i < N" by simp
    then show ?thesis using True i by (simp add: nth_append)
  next
    case False
    then have ge: "N \<le> k + i" by simp
    have "(k + i) mod N = (k + i - N) mod N" using ge by (rule le_mod_geq)
    also have "\<dots> = k + i - N" using assms i by simp
    finally show ?thesis using False i assms by (simp add: nth_append)
  qed
qed

lemma unat_of_nat_mod:
  fixes N :: uint32
  assumes "0 < unat N"
  shows "unat (of_nat (a mod unat N) :: uint32) = a mod unat N"
proof -
  have "a mod unat N < unat N" using assms by simp
  moreover have "unat N < 2 ^ LENGTH(32)" by (rule unsigned_less)
  ultimately have "a mod unat N < 2 ^ LENGTH(32)" by (rule less_trans)
  then show ?thesis by (simp add: unat_of_nat)
qed

section \<open>The wakeup\<close>

lemma noisy_msg_flag_eq:
  "noisy_msg_flag S = S\<lparr>SendNoisyMajorFrameMsg := \<not> IgnoreMajorFrame S\<rparr>"
  by (cases "SendNoisyMajorFrameMsg S") (auto simp: noisy_msg_flag_def)

lemma GetCurrentSlotNumber_noisy_msg_flag [simp]:
  "GetCurrentSlotNumber cfg ev (noisy_msg_flag S) = GetCurrentSlotNumber cfg ev S"
  by (simp add: noisy_msg_flag_eq GetCurrentSlotNumber_def cong: if_cong sum.case_cong)

lemma lag_input_fields:
  "SchTbl (snd (lag_input cfg cur S)) = SchTbl S"
  "NextSlotNumber (snd (lag_input cfg cur S)) = NextSlotNumber S"
  "TablePassCount (snd (lag_input cfg cur S)) = TablePassCount S"
  "SkippedSlotsCount (snd (lag_input cfg cur S)) = SkippedSlotsCount S"
  "SlotsProcessedCount (snd (lag_input cfg cur S)) = SlotsProcessedCount S"
  "IgnoreMajorFrame (snd (lag_input cfg cur S)) = IgnoreMajorFrame S"
  "LastProcessCount (snd (lag_input cfg cur S)) =
     LastProcessCount (snd (jitter_correction cfg (initial_process_count cfg cur S) S))"
  by (simp_all add: lag_input_def Let_def same_slot_def jitter_correction_def split: prod.splits)

lemma lag_input_noisy_msg_flag [simp]:
  "fst (lag_input cfg cur (noisy_msg_flag S)) = fst (lag_input cfg cur S)"
  by (simp add: noisy_msg_flag_eq lag_input_def Let_def same_slot_def jitter_correction_def
      initial_process_count_def case_prod_beta cong: if_cong)

lemma reconcile_fields:
  "fst (reconcile cfg cur S) =
     slots_per_wakeup cfg (if lagging cfg cur S then 1 else fst (lag_input cfg cur S))"
  "SchTbl (snd (reconcile cfg cur S)) = SchTbl S"
  "NextSlotNumber (snd (reconcile cfg cur S)) = (if lagging cfg cur S then cur else NextSlotNumber S)"
  "TablePassCount (snd (reconcile cfg cur S)) =
     (if lagging cfg cur S \<and> cur < NextSlotNumber S then TablePassCount S + 1 else TablePassCount S)"
  "SkippedSlotsCount (snd (reconcile cfg cur S)) =
     (if lagging cfg cur S then SkippedSlotsCount S + 1 else SkippedSlotsCount S)"
  "SlotsProcessedCount (snd (reconcile cfg cur S)) = SlotsProcessedCount S"
  "IgnoreMajorFrame (snd (reconcile cfg cur S)) = IgnoreMajorFrame S"
  "LastProcessCount (snd (reconcile cfg cur S)) =
     LastProcessCount (snd (jitter_correction cfg (initial_process_count cfg cur S) S))"
  using lag_input_fields [of cfg cur S]
  by (auto simp: reconcile_def lagging_def Let_def lag_limit_def multiple_slots_def
      split: prod.splits)

lemma SCHEDULER_Execute_run:
  assumes sem: "OS_BinSemTake ev = CFE_SUCCESS"
    and clk: "GetCurrentSlotNumber cfg ev (Scheduler w) = Inr cur"
    and cur: "cur < SCHTBL_SLOTS cfg"
    and nxt: "NextSlotNumber (Scheduler w) < SCHTBL_SLOTS cfg"
    and tbl: "table_ok cfg (Scheduler w)"
  shows "\<exists>w' es. SCHEDULER_Execute cfg ev w = Inr (True, w') \<and>
           run_step cfg (unat (fst (reconcile cfg cur (noisy_msg_flag (Scheduler w)))))
             (w\<lparr>Scheduler := snd (reconcile cfg cur (noisy_msg_flag (Scheduler w)))\<rparr>) w' es"
proof -
  let ?S = "noisy_msg_flag (Scheduler w)"
  let ?pc = "fst (reconcile cfg cur ?S)" and ?S' = "snd (reconcile cfg cur ?S)"
  let ?w = "w\<lparr>Scheduler := ?S'\<rparr>"
  have "table_ok cfg (Scheduler ?w)"
    using tbl by (simp add: table_ok_def reconcile_fields noisy_msg_flag_eq)
  moreover have "NextSlotNumber (Scheduler ?w) < SCHTBL_SLOTS cfg"
    using nxt cur by (simp add: reconcile_fields noisy_msg_flag_eq)
  ultimately obtain w' es
    where 1: "process_slots cfg ev ?pc CFE_SUCCESS ?w = Inr (CFE_SUCCESS, w')"
      and 2: "run_step cfg (unat ?pc) ?w w' es"
    using process_slots_run by blast
  have "SCHEDULER_Execute cfg ev w = Inr (True, w')"
    using sem clk 1 by (simp add: SCHEDULER_Execute_def Let_def case_prod_beta)
  then show ?thesis using 2 by blast
qed


lemma initial_process_count_noisy_msg_flag [simp]:
  "initial_process_count cfg cur (noisy_msg_flag S) = initial_process_count cfg cur S"
  by (simp add: noisy_msg_flag_eq initial_process_count_def)

lemma jitter_correction_noisy_msg_flag [simp]:
  "fst (jitter_correction cfg pc (noisy_msg_flag S)) = fst (jitter_correction cfg pc S)"
  "LastProcessCount (snd (jitter_correction cfg pc (noisy_msg_flag S))) =
     LastProcessCount (snd (jitter_correction cfg pc S))"
  by (simp_all add: noisy_msg_flag_eq jitter_correction_def)

lemma process_slots_one:
  assumes "ProcessNextSlot cfg ev w = Inr (r, w')"
  shows "process_slots cfg ev 1 CFE_SUCCESS w = Inr (r, w')"
  using assms
  by (subst process_slots.simps, simp, subst process_slots.simps, simp)

section \<open>The callbacks\<close>






lemma minor_frame_finish_IgnoreMajorFrame [simp]:
  "IgnoreMajorFrame (Scheduler (minor_frame_finish cfg w)) = IgnoreMajorFrame (Scheduler w)"
  by (simp add: minor_frame_finish_def Let_def)



section \<open>The concrete states are well formed\<close>

lemma table_ok_world_at: "table_ok cfg100 (Scheduler (world_at a b))"
  by (simp add: table_ok_def cfg100_def world_at_def world0_def sched0_def entry41_def list_all_iff)

lemma world_mixed_facts:
  "table_ok cfg2x4 (Scheduler world_mixed)"
  "NextSlotNumber (Scheduler world_mixed) < SCHTBL_SLOTS cfg2x4"
  "NextSlotNumber (Scheduler world_mixed) = 0"
  "slot_indices cfg2x4 0 = [0, 1, 2, 3]"
  "SchTbl (Scheduler world_mixed) =
     [entry_msg 3, entry_msg 9, entry_msg 5, entry42, entry41, entry41, entry41, entry41]"
  "TablePassCount (Scheduler world_mixed) = 5"
  "Out world_mixed = []"
  "SCHTBL_SLOTS cfg2x4 = 2"
  by (simp_all add: table_ok_def cfg2x4_def cfg100_def world_mixed_def world0_def sched0_def
      entry_msg_def entry41_def entry42_def slot_indices_def upt_conv_Cons)

lemma ev_mixed_facts:
  "MSGTBL_GetMsgPtr ev_mixed 3 = Some [3]"
  "MSGTBL_GetMsgPtr ev_mixed 9 = None"
  "MSGTBL_GetMsgPtr ev_mixed 5 = Some [5]"
  "MSGTBL_GetMsgPtr ev_mixed 6 = Some [6]"
  "CFE_SB_TransmitMsg ev_mixed t [3] = CFE_STATUS_ERROR (- 1)"
  "CFE_SB_TransmitMsg ev_mixed t [5] = CFE_SUCCESS"
  "CFE_SB_TransmitMsg ev_mixed t [6] = CFE_SUCCESS"
  "OS_BinSemTake ev_mixed = CFE_SUCCESS"
  by (simp_all add: ev_mixed_def ev_ok_def)

lemma world_mixed_wakeup:
  "GetCurrentSlotNumber cfg2x4 ev_mixed (Scheduler world_mixed) = Inr 0"
  "reconcile cfg2x4 0 (noisy_msg_flag (Scheduler world_mixed)) = (1, Scheduler world_mixed)"
  by (simp_all add: GetCurrentSlotNumber_def reconcile_def lag_input_def initial_process_count_def
      jitter_correction_def same_slot_def lag_limit_def slots_per_wakeup_def multiple_slots_def
      noisy_msg_flag_def cfg2x4_def cfg100_def world_mixed_def world0_def sched0_def Let_def)

section \<open>Reset (C1)\<close>

text \<open>
  C1, as stated, also promises that \<open>SCHEDULER_ResetStatus\<close> leaves \<open>TablePassCount\<close>
  unchanged.  Line 169 sets it to zero: in a state with \<open>TablePassCount = 5\<close> the reset
  changes it.
\<close>

theorem C1_reset_changes_TablePassCount:
  "TablePassCount (Scheduler (SCHEDULER_ResetStatus world0)) \<noteq> TablePassCount (Scheduler world0)"
  by (simp add: SCHEDULER_ResetStatus_def world0_def sched0_def)

text \<open>
  C1 (amended): for every state, \<open>SCHEDULER_ResetStatus\<close> zeroes the diagnostic counters
  (SlotsProcessed, SkippedSlots, MultipleSlots, SameSlot, ActivitySuccess,
  ActivityFailure, ValidMajorFrameCount, MissedMajorFrameCount,
  UnexpectedMajorFrameCount, ConsecutiveNoisyFrameCounter) and \<open>TablePassCount\<close>, clears
  \<open>IgnoreMajorFrame\<close>, and leaves \<open>NextSlotNumber\<close>, the schedule table, the message
  table and every other member unchanged.
\<close>

theorem C1_reset_status:
  "SlotsProcessedCount (Scheduler (SCHEDULER_ResetStatus w)) = 0 \<and>
   SkippedSlotsCount (Scheduler (SCHEDULER_ResetStatus w)) = 0 \<and>
   MultipleSlotsCount (Scheduler (SCHEDULER_ResetStatus w)) = 0 \<and>
   SameSlotCount (Scheduler (SCHEDULER_ResetStatus w)) = 0 \<and>
   ScheduleActivitySuccessCount (Scheduler (SCHEDULER_ResetStatus w)) = 0 \<and>
   ScheduleActivityFailureCount (Scheduler (SCHEDULER_ResetStatus w)) = 0 \<and>
   ValidMajorFrameCount (Scheduler (SCHEDULER_ResetStatus w)) = 0 \<and>
   MissedMajorFrameCount (Scheduler (SCHEDULER_ResetStatus w)) = 0 \<and>
   UnexpectedMajorFrameCount (Scheduler (SCHEDULER_ResetStatus w)) = 0 \<and>
   ConsecutiveNoisyFrameCounter (Scheduler (SCHEDULER_ResetStatus w)) = 0 \<and>
   TablePassCount (Scheduler (SCHEDULER_ResetStatus w)) = 0 \<and>
   IgnoreMajorFrame (Scheduler (SCHEDULER_ResetStatus w)) = False \<and>
   NextSlotNumber (Scheduler (SCHEDULER_ResetStatus w)) = NextSlotNumber (Scheduler w) \<and>
   SchTbl (Scheduler (SCHEDULER_ResetStatus w)) = SchTbl (Scheduler w) \<and>
   MsgTbl (Scheduler (SCHEDULER_ResetStatus w)) = MsgTbl (Scheduler w) \<and>
   MinorFramesSinceTone (Scheduler (SCHEDULER_ResetStatus w)) = MinorFramesSinceTone (Scheduler w) \<and>
   LastSyncMETSlot (Scheduler (SCHEDULER_ResetStatus w)) = LastSyncMETSlot (Scheduler w) \<and>
   SyncAttemptsLeft (Scheduler (SCHEDULER_ResetStatus w)) = SyncAttemptsLeft (Scheduler w) \<and>
   SyncToMET (Scheduler (SCHEDULER_ResetStatus w)) = SyncToMET (Scheduler w) \<and>
   MajorFrameSource (Scheduler (SCHEDULER_ResetStatus w)) = MajorFrameSource (Scheduler w) \<and>
   LastProcessCount (Scheduler (SCHEDULER_ResetStatus w)) = LastProcessCount (Scheduler w) \<and>
   WorstCaseSlotsPerMinorFrame (Scheduler (SCHEDULER_ResetStatus w)) =
     WorstCaseSlotsPerMinorFrame (Scheduler w) \<and>
   SendNoisyMajorFrameMsg (Scheduler (SCHEDULER_ResetStatus w)) =
     SendNoisyMajorFrameMsg (Scheduler w) \<and>
   UnexpectedMajorFrame (Scheduler (SCHEDULER_ResetStatus w)) = UnexpectedMajorFrame (Scheduler w) \<and>
   Out (SCHEDULER_ResetStatus w) = Out w"
  by (simp add: SCHEDULER_ResetStatus_def)

section \<open>Validation before enabling an entry (C2)\<close>

text \<open>
  C2, as stated, includes the single-entry table load among the entry points that reject
  an entry violating \<open>Offset < Period\<close>.  \<open>SCHEDULER_LoadSchTblEntry\<close> copies what it is
  given: loading an enabled entry with \<open>Period = 0\<close> and \<open>Offset = 0\<close> over the disabled
  entry 0 returns \<open>true\<close> and leaves the entry enabled.
\<close>

theorem C2_table_load_does_not_validate:
  "\<not> Offset entry_bad < Period entry_bad \<and>
   Enabled entry_bad \<and>
   \<not> Enabled (SchTbl (Scheduler world_bad) ! 0) \<and>
   SCHEDULER_LoadSchTblEntry 0 entry_bad world_bad = Inr (True, world_bad_loaded) \<and>
   Enabled (SchTbl (Scheduler world_bad_loaded) ! 0) \<and>
   SchTbl (Scheduler world_bad_loaded) ! 0 = entry_bad"
  by (simp add: SCHEDULER_LoadSchTblEntry_def set_entry_def world_bad_def world_bad_loaded_def
      world0_def sched0_def entry_bad_def entry_bad_off_def)

text \<open>
  C2 (amended): the config-entry command and the load-entry command reject the operation,
  returning failure and leaving everything unchanged, whenever the fields of the entry
  (for the config command the entry in the table, for the load command the commanded
  fields) do not satisfy \<open>Offset < Period\<close>, and neither of them ever turns a disabled
  entry into an enabled one that violates \<open>Offset < Period\<close>; this relies on the entry
  validator \<open>SCHTBL_ValidEntry\<close> that both call, which accepts only entries with
  \<open>Offset < Period\<close>, and on \<open>CMDMGR_ValidBoolArg\<close>, which accepts only the values 1 and 0,
  as the rejection event of the config command says.  The table loads \<open>SCHEDULER_LoadSchTblEntry\<close> and
  \<open>SCHEDULER_LoadSchTbl\<close> validate nothing: they store what they are given and return
  \<open>true\<close>.
\<close>

theorem C2_commands_validate:
  assumes valid: "\<forall>En P Off M. SCHTBL_ValidEntry ev En P Off M \<longrightarrow> Off < P"
    and bool: "\<forall>BoolArg. CMDMGR_ValidBoolArg ev BoolArg \<longrightarrow> BoolArg = 1 \<or> BoolArg = 0"
  shows
   "(CfgEnabled cfgcmd = 1 \<and>
     SCHTBL_GetEntryIndex ev (CfgSlot cfgcmd) (CfgActivity cfgcmd) = Some Index \<and>
     unat Index < length (SchTbl (Scheduler w)) \<and>
     \<not> Offset (SchTbl (Scheduler w) ! unat Index) < Period (SchTbl (Scheduler w) ! unat Index) \<longrightarrow>
       SCHEDULER_ConfigSchEntryCmd ev cfgcmd w = Inr (False, w)) \<and>
    (\<not> LdOffset ldcmd < LdPeriod ldcmd \<longrightarrow>
       SCHEDULER_LoadSchEntryCmd ev ldcmd w = Inr (False, w)) \<and>
    (\<forall>ok w' i. SCHEDULER_ConfigSchEntryCmd ev cfgcmd w = Inr (ok, w') \<and>
       i < length (SchTbl (Scheduler w)) \<and>
       Enabled (SchTbl (Scheduler w') ! i) \<and> \<not> Enabled (SchTbl (Scheduler w) ! i) \<longrightarrow>
         ok \<and> Offset (SchTbl (Scheduler w') ! i) < Period (SchTbl (Scheduler w') ! i)) \<and>
    (\<forall>ok w' i. SCHEDULER_LoadSchEntryCmd ev ldcmd w = Inr (ok, w') \<and>
       i < length (SchTbl (Scheduler w)) \<and>
       Enabled (SchTbl (Scheduler w') ! i) \<and> \<not> Enabled (SchTbl (Scheduler w) ! i) \<longrightarrow>
         ok \<and> Offset (SchTbl (Scheduler w') ! i) < Period (SchTbl (Scheduler w') ! i)) \<and>
    (unat EntryId < length (SchTbl (Scheduler w)) \<longrightarrow>
       (\<exists>w'. SCHEDULER_LoadSchTblEntry EntryId NewEntry w = Inr (True, w') \<and>
             SchTbl (Scheduler w') ! unat EntryId = NewEntry)) \<and>
    (\<exists>w'. SCHEDULER_LoadSchTbl NewTbl w = (True, w') \<and> SchTbl (Scheduler w') = NewTbl)"
proof -
  let ?tbl = "SchTbl (Scheduler w)"
  have v: "Off < P" if "SCHTBL_ValidEntry ev En P Off M" for En P Off M
    using valid that by blast
  have b: "BoolArg = 1 \<or> BoolArg = 0" if "CMDMGR_ValidBoolArg ev BoolArg" for BoolArg
    using bool that by blast
  have A: "CfgEnabled cfgcmd = 1 \<and>
     SCHTBL_GetEntryIndex ev (CfgSlot cfgcmd) (CfgActivity cfgcmd) = Some Index \<and>
     unat Index < length ?tbl \<and>
     \<not> Offset (?tbl ! unat Index) < Period (?tbl ! unat Index) \<longrightarrow>
       SCHEDULER_ConfigSchEntryCmd ev cfgcmd w = Inr (False, w)"
    using v by (auto simp: SCHEDULER_ConfigSchEntryCmd_def Let_def)
  have B: "\<not> LdOffset ldcmd < LdPeriod ldcmd \<longrightarrow>
       SCHEDULER_LoadSchEntryCmd ev ldcmd w = Inr (False, w)"
    using v by (auto simp: SCHEDULER_LoadSchEntryCmd_def split: option.splits)
  have C: "\<forall>ok w' i. SCHEDULER_ConfigSchEntryCmd ev cfgcmd w = Inr (ok, w') \<and>
       i < length ?tbl \<and>
       Enabled (SchTbl (Scheduler w') ! i) \<and> \<not> Enabled (?tbl ! i) \<longrightarrow>
         ok \<and> Offset (SchTbl (Scheduler w') ! i) < Period (SchTbl (Scheduler w') ! i)"
  proof (intro allI impI)
    fix ok w' i
    assume a: "SCHEDULER_ConfigSchEntryCmd ev cfgcmd w = Inr (ok, w') \<and>
       i < length ?tbl \<and> Enabled (SchTbl (Scheduler w') ! i) \<and> \<not> Enabled (?tbl ! i)"
    then have chg: "SchTbl (Scheduler w') ! i \<noteq> ?tbl ! i" by auto
    from a chg show "ok \<and> Offset (SchTbl (Scheduler w') ! i) < Period (SchTbl (Scheduler w') ! i)"
      by (auto simp: SCHEDULER_ConfigSchEntryCmd_def Let_def set_entry_def nth_list_update
          split: option.splits if_splits dest: v b)
  qed
  have D: "\<forall>ok w' i. SCHEDULER_LoadSchEntryCmd ev ldcmd w = Inr (ok, w') \<and>
       i < length ?tbl \<and>
       Enabled (SchTbl (Scheduler w') ! i) \<and> \<not> Enabled (?tbl ! i) \<longrightarrow>
         ok \<and> Offset (SchTbl (Scheduler w') ! i) < Period (SchTbl (Scheduler w') ! i)"
  proof (intro allI impI)
    fix ok w' i
    assume a: "SCHEDULER_LoadSchEntryCmd ev ldcmd w = Inr (ok, w') \<and>
       i < length ?tbl \<and> Enabled (SchTbl (Scheduler w') ! i) \<and> \<not> Enabled (?tbl ! i)"
    then have chg: "SchTbl (Scheduler w') ! i \<noteq> ?tbl ! i" by auto
    from a chg show "ok \<and> Offset (SchTbl (Scheduler w') ! i) < Period (SchTbl (Scheduler w') ! i)"
      by (auto simp: SCHEDULER_LoadSchEntryCmd_def Let_def set_entry_def nth_list_update
          split: option.splits if_splits dest: v)
  qed
  have E: "unat EntryId < length ?tbl \<longrightarrow>
       (\<exists>w'. SCHEDULER_LoadSchTblEntry EntryId NewEntry w = Inr (True, w') \<and>
             SchTbl (Scheduler w') ! unat EntryId = NewEntry)"
    by (simp add: SCHEDULER_LoadSchTblEntry_def set_entry_def)
  have F: "\<exists>w'. SCHEDULER_LoadSchTbl NewTbl w = (True, w') \<and> SchTbl (Scheduler w') = NewTbl"
    by (simp add: SCHEDULER_LoadSchTbl_def)
  show ?thesis by (intro conjI A B C D E F)
qed

text \<open>
  C2 (amended) with the validator of the spec: enabling entry 0 of \<open>world_bad\<close>, whose
  fields violate \<open>Offset < Period\<close>, is rejected; loading an entry with
  \<open>Offset = Period\<close> is rejected; enabling the valid entry 0 of \<open>world_off\<close> succeeds;
  and the table load stores the invalid enabled entry.
\<close>

theorem C2_commands_validate_witness:
  "SCHEDULER_ConfigSchEntryCmd ev_ok cmd_enable world_bad = Inr (False, world_bad) \<and>
   SCHEDULER_LoadSchEntryCmd ev_ok cmd_load_bad world_bad = Inr (False, world_bad) \<and>
   (\<exists>w'. SCHEDULER_ConfigSchEntryCmd ev_ok cmd_enable world_off = Inr (True, w') \<and>
         \<not> Enabled (SchTbl (Scheduler world_off) ! 0) \<and>
         Enabled (SchTbl (Scheduler w') ! 0) \<and>
         Offset (SchTbl (Scheduler w') ! 0) < Period (SchTbl (Scheduler w') ! 0)) \<and>
   (\<exists>w'. SCHEDULER_LoadSchTblEntry 0 entry_bad world_bad = Inr (True, w') \<and>
         SchTbl (Scheduler w') ! 0 = entry_bad)"
proof -
  have v: "\<forall>En P Off M. SCHTBL_ValidEntry ev_ok En P Off M \<longrightarrow> Off < P"
    by (simp add: ev_ok_def SCHTBL_ValidEntry_spec_def)
  have b: "\<forall>BoolArg. CMDMGR_ValidBoolArg ev_ok BoolArg \<longrightarrow> BoolArg = 1 \<or> BoolArg = 0"
    by (simp add: ev_ok_def)
  have 1: "CfgEnabled cmd_enable = 1"
    "SCHTBL_GetEntryIndex ev_ok (CfgSlot cmd_enable) (CfgActivity cmd_enable) = Some 0"
    "unat (0 :: uint16) < length (SchTbl (Scheduler world_bad))"
    "\<not> Offset (SchTbl (Scheduler world_bad) ! unat (0 :: uint16))
        < Period (SchTbl (Scheduler world_bad) ! unat (0 :: uint16))"
    "\<not> LdOffset cmd_load_bad < LdPeriod cmd_load_bad"
    "0 < length (SchTbl (Scheduler world_off))"
    by (simp_all add: cmd_enable_def cmd_load_bad_def ev_ok_def world_bad_def world_off_def
        world0_def sched0_def entry_bad_off_def)
  have A: "SCHEDULER_ConfigSchEntryCmd ev_ok cmd_enable world_bad = Inr (False, world_bad)"
    and B: "SCHEDULER_LoadSchEntryCmd ev_ok cmd_load_bad world_bad = Inr (False, world_bad)"
    and E: "\<exists>w'. SCHEDULER_LoadSchTblEntry 0 entry_bad world_bad = Inr (True, w') \<and>
         SchTbl (Scheduler w') ! 0 = entry_bad"
    using C2_commands_validate [OF v b, of cmd_enable 0 world_bad cmd_load_bad 0 entry_bad] 1
    by simp_all
  obtain w' where c: "SCHEDULER_ConfigSchEntryCmd ev_ok cmd_enable world_off = Inr (True, w')"
    and e: "Enabled (SchTbl (Scheduler w') ! 0)" "\<not> Enabled (SchTbl (Scheduler world_off) ! 0)"
    by (simp add: SCHEDULER_ConfigSchEntryCmd_def Let_def cmd_enable_def ev_ok_def world_off_def
        world0_def sched0_def entry_off_def SCHTBL_ValidEntry_spec_def
        bool_arg_def set_entry_def)
  have "Offset (SchTbl (Scheduler w') ! 0) < Period (SchTbl (Scheduler w') ! 0)"
    using C2_commands_validate [OF v b, of cmd_enable 0 world_off cmd_load_bad 0 entry_bad] c e 1(6)
    by blast
  then have C: "\<exists>w'. SCHEDULER_ConfigSchEntryCmd ev_ok cmd_enable world_off = Inr (True, w') \<and>
         \<not> Enabled (SchTbl (Scheduler world_off) ! 0) \<and>
         Enabled (SchTbl (Scheduler w') ! 0) \<and>
         Offset (SchTbl (Scheduler w') ! 0) < Period (SchTbl (Scheduler w') ! 0)"
    using c e by blast
  show ?thesis by (intro conjI A B C E)
qed

section \<open>The initial slot count (C3)\<close>

text \<open>
  C3: on every wakeup the initial slot count is
  \<open>CurrentSlot - NextSlotNumber + 1\<close> when \<open>CurrentSlot \<ge> NextSlotNumber\<close> and
  \<open>SCHTBL_SLOTS - NextSlotNumber + CurrentSlot + 1\<close> otherwise.  For
  \<open>NextSlotNumber = 5\<close>, \<open>CurrentSlot = 7\<close> it is 3.  For \<open>NextSlotNumber = 98\<close>,
  \<open>CurrentSlot = 1\<close> and 100 slots it is 4, and the wakeup then processes the slots
  98, 99, 0, 1, increments \<open>TablePassCount\<close> once and leaves \<open>NextSlotNumber = 2\<close>.
  The run of four slots presupposes that the two limits taken from the headers, the
  maximum lag and the maximum number of slots per wakeup, are at least four, that the
  semaphore is taken, and that the schedule table is well formed.
\<close>

theorem C3_process_count:
  "initial_process_count cfg cur (Scheduler w) =
     (if NextSlotNumber (Scheduler w) \<le> cur
      then cur - NextSlotNumber (Scheduler w) + 1
      else SCHTBL_SLOTS cfg - NextSlotNumber (Scheduler w) + cur + 1) \<and>
   (NextSlotNumber (Scheduler w) = 5 \<and> cur = 7 \<longrightarrow>
      initial_process_count cfg cur (Scheduler w) = 3) \<and>
   (NextSlotNumber (Scheduler w) = 98 \<and> cur = 1 \<and> SCHTBL_SLOTS cfg = 100 \<longrightarrow>
      initial_process_count cfg cur (Scheduler w) = 4) \<and>
   (NextSlotNumber (Scheduler w) = 98 \<and> cur = 1 \<and> SCHTBL_SLOTS cfg = 100 \<and>
    OS_BinSemTake ev = CFE_SUCCESS \<and>
    GetCurrentSlotNumber cfg ev (Scheduler w) = Inr cur \<and>
    table_ok cfg (Scheduler w) \<and>
    4 \<le> SCHEDULER_MAX_LAG_COUNT cfg \<and> 4 \<le> SCHEDULER_MAX_SLOTS_PER_WAKEUP cfg \<longrightarrow>
    (\<exists>w'. SCHEDULER_Execute cfg ev w = Inr (True, w') \<and>
          slots_run (new_out w w') = [98, 99, 0, 1] \<and>
          TablePassCount (Scheduler w') = TablePassCount (Scheduler w) + 1 \<and>
          NextSlotNumber (Scheduler w') = 2))"
proof (intro conjI impI)
  show "initial_process_count cfg cur (Scheduler w) =
     (if NextSlotNumber (Scheduler w) \<le> cur
      then cur - NextSlotNumber (Scheduler w) + 1
      else SCHTBL_SLOTS cfg - NextSlotNumber (Scheduler w) + cur + 1)"
  proof (cases "cur < NextSlotNumber (Scheduler w)")
    case True
    then have "\<not> NextSlotNumber (Scheduler w) \<le> cur" by (simp add: not_le)
    then show ?thesis using True by (simp add: initial_process_count_def add.assoc)
  next
    case False
    then have "NextSlotNumber (Scheduler w) \<le> cur" by (simp add: not_less)
    then show ?thesis using False by (simp add: initial_process_count_def)
  qed
next
  assume "NextSlotNumber (Scheduler w) = 5 \<and> cur = 7"
  then show "initial_process_count cfg cur (Scheduler w) = 3"
    by (simp add: initial_process_count_def)
next
  assume "NextSlotNumber (Scheduler w) = 98 \<and> cur = 1 \<and> SCHTBL_SLOTS cfg = 100"
  then show "initial_process_count cfg cur (Scheduler w) = 4"
    by (simp add: initial_process_count_def)
next
  let ?S = "noisy_msg_flag (Scheduler w)"
  assume a: "NextSlotNumber (Scheduler w) = 98 \<and> cur = 1 \<and> SCHTBL_SLOTS cfg = 100 \<and>
    OS_BinSemTake ev = CFE_SUCCESS \<and>
    GetCurrentSlotNumber cfg ev (Scheduler w) = Inr cur \<and>
    table_ok cfg (Scheduler w) \<and>
    4 \<le> SCHEDULER_MAX_LAG_COUNT cfg \<and> 4 \<le> SCHEDULER_MAX_SLOTS_PER_WAKEUP cfg"
  then have nxt: "NextSlotNumber (Scheduler w) = 98" and cur: "cur = 1"
    and slots: "SCHTBL_SLOTS cfg = 100" by simp_all
  have li: "fst (lag_input cfg cur (Scheduler w)) = 4"
    by (simp add: lag_input_def Let_def initial_process_count_def jitter_correction_def
        same_slot_def nxt cur slots)
  from a have caps: "\<not> SCHEDULER_MAX_LAG_COUNT cfg < 4"
      "\<not> SCHEDULER_MAX_SLOTS_PER_WAKEUP cfg < 4"
    by (simp_all add: not_less)
  have nolag: "\<not> lagging cfg cur ?S"
    using caps li by (simp add: lagging_def)
  have pc: "fst (reconcile cfg cur ?S) = 4"
    using caps li nolag by (simp add: reconcile_fields slots_per_wakeup_def)
  from a have "cur < SCHTBL_SLOTS cfg" "NextSlotNumber (Scheduler w) < SCHTBL_SLOTS cfg"
    by simp_all
  with a SCHEDULER_Execute_run [of ev cfg w cur] obtain w' es
    where ex: "SCHEDULER_Execute cfg ev w = Inr (True, w')"
      and r: "run_step cfg (unat (fst (reconcile cfg cur ?S)))
                (w\<lparr>Scheduler := snd (reconcile cfg cur ?S)\<rparr>) w' es"
    by blast
  have next': "NextSlotNumber (snd (reconcile cfg cur ?S)) = 98"
    using nolag by (simp add: reconcile_fields noisy_msg_flag_eq nxt)
  have tpc': "TablePassCount (snd (reconcile cfg cur ?S)) = TablePassCount (Scheduler w)"
    using nolag by (simp add: reconcile_fields noisy_msg_flag_eq)
  have "new_out w w' = es"
    using run_stepD(1) [OF r] by (simp add: new_out_def)
  moreover have "slots_run es = [98, 99, 0, 1]"
    using run_stepD(2) [OF r] by (simp add: pc next' slots upt_rec)
  moreover have "TablePassCount (Scheduler w') = TablePassCount (Scheduler w) + 1"
    using run_stepD(5) [OF r] by (simp add: pc next' tpc' slots)
  moreover have "NextSlotNumber (Scheduler w') = 2"
    using run_stepD(4) [OF r] by (simp add: pc next' slots)
  ultimately show "\<exists>w'. SCHEDULER_Execute cfg ev w = Inr (True, w') \<and>
          slots_run (new_out w w') = [98, 99, 0, 1] \<and>
          TablePassCount (Scheduler w') = TablePassCount (Scheduler w) + 1 \<and>
          NextSlotNumber (Scheduler w') = 2"
    using ex by blast
qed

text \<open>The two examples of C3, run in the configuration \<open>cfg100\<close>.\<close>

theorem C3_process_count_witness:
  "initial_process_count cfg100 7 (Scheduler (world_at 5 7)) = 3 \<and>
   initial_process_count cfg100 1 (Scheduler (world_at 98 1)) = 4 \<and>
   (\<exists>w'. SCHEDULER_Execute cfg100 ev_ok (world_at 98 1) = Inr (True, w') \<and>
         slots_run (new_out (world_at 98 1) w') = [98, 99, 0, 1] \<and>
         TablePassCount (Scheduler w') = 6 \<and>
         NextSlotNumber (Scheduler w') = 2)"
proof -
  have 1: "NextSlotNumber (Scheduler (world_at 5 7)) = 5"
    and 2: "NextSlotNumber (Scheduler (world_at 98 1)) = 98"
    and 3: "SCHTBL_SLOTS cfg100 = 100"
    and 4: "OS_BinSemTake ev_ok = CFE_SUCCESS"
    and 5: "GetCurrentSlotNumber cfg100 ev_ok (Scheduler (world_at 98 1)) = Inr 1"
    and 6: "4 \<le> SCHEDULER_MAX_LAG_COUNT cfg100" "4 \<le> SCHEDULER_MAX_SLOTS_PER_WAKEUP cfg100"
    and 7: "TablePassCount (Scheduler (world_at 98 1)) = 5"
    by (simp_all add: world_at_def world0_def sched0_def cfg100_def ev_ok_def
        GetCurrentSlotNumber_def)
  show ?thesis
    using C3_process_count [of cfg100 7 "world_at 5 7" ev_ok]
      C3_process_count [of cfg100 1 "world_at 98 1" ev_ok]
      1 2 3 4 5 6 7 table_ok_world_at [of 98 1]
    by (simp add: word_le_nat_alt)
qed

section \<open>Jitter correction (C4)\<close>

text \<open>
  C4: on a wakeup whose computed \<open>ProcessCount\<close> is 2 while the count recorded by the
  previous wakeup is 1, the jitter correction collapses \<open>ProcessCount\<close> to 1 and records
  2 as the previous count; the slot executor then runs exactly once, and a following
  wakeup that computes 2 again is not collapsed.  The wakeup is one in which the
  semaphore is taken, the slot clock and \<open>NextSlotNumber\<close> are within the table, the
  table is well formed, and the header constant for the maximum number of slots per
  wakeup is at least one.
\<close>

theorem C4_jitter_collapse:
  assumes pc: "initial_process_count cfg cur (Scheduler w) = 2"
    and last: "LastProcessCount (Scheduler w) = 1"
    and sem: "OS_BinSemTake ev = CFE_SUCCESS"
    and clk: "GetCurrentSlotNumber cfg ev (Scheduler w) = Inr cur"
    and cur: "cur < SCHTBL_SLOTS cfg"
    and nxt: "NextSlotNumber (Scheduler w) < SCHTBL_SLOTS cfg"
    and tbl: "table_ok cfg (Scheduler w)"
    and cap: "1 \<le> SCHEDULER_MAX_SLOTS_PER_WAKEUP cfg"
  shows "fst (jitter_correction cfg (initial_process_count cfg cur (Scheduler w)) (Scheduler w)) = 1 \<and>
    LastProcessCount
      (snd (jitter_correction cfg (initial_process_count cfg cur (Scheduler w)) (Scheduler w))) = 2 \<and>
    (\<exists>w'. SCHEDULER_Execute cfg ev w = Inr (True, w') \<and>
        length (slots_run (new_out w w')) = 1 \<and>
        SlotsProcessedCount (Scheduler w') = SlotsProcessedCount (Scheduler w) + 1 \<and>
        LastProcessCount (Scheduler w') = 2 \<and>
        fst (jitter_correction cfg 2 (Scheduler w')) = 2)"
proof (intro conjI)
  let ?S = "noisy_msg_flag (Scheduler w)"
  show j1: "fst (jitter_correction cfg (initial_process_count cfg cur (Scheduler w)) (Scheduler w)) = 1"
    using pc last by (simp add: jitter_correction_def)
  show j2: "LastProcessCount
      (snd (jitter_correction cfg (initial_process_count cfg cur (Scheduler w)) (Scheduler w))) = 2"
    using pc last by (simp add: jitter_correction_def)
  have slots: "SCHTBL_SLOTS cfg \<noteq> 1"
  proof
    assume 1: "SCHTBL_SLOTS cfg = 1"
    then have "cur = 0" "NextSlotNumber (Scheduler w) = 0"
      using cur nxt by (simp_all add: word_less_1)
    then show False using pc by (simp add: initial_process_count_def)
  qed
  have "fst (lag_input cfg cur (Scheduler w)) = 1"
    using pc last slots
    by (simp add: lag_input_def Let_def jitter_correction_def same_slot_def)
  then have li: "fst (lag_input cfg cur ?S) = 1" by simp
  have ncap: "\<not> SCHEDULER_MAX_SLOTS_PER_WAKEUP cfg < 1"
    using cap by unat_arith
  have rpc: "fst (reconcile cfg cur ?S) = 1"
    using li ncap by (simp add: reconcile_fields slots_per_wakeup_def)
  from SCHEDULER_Execute_run [OF sem clk cur nxt tbl] obtain w' es
    where ex: "SCHEDULER_Execute cfg ev w = Inr (True, w')"
      and r: "run_step cfg (unat (fst (reconcile cfg cur ?S)))
                (w\<lparr>Scheduler := snd (reconcile cfg cur ?S)\<rparr>) w' es"
    by blast
  let ?w = "w\<lparr>Scheduler := snd (reconcile cfg cur ?S)\<rparr>"
  from r rpc have r1: "run_step cfg 1 ?w w' es" by simp
  have k: "NextSlotNumber (Scheduler ?w) < SCHTBL_SLOTS cfg"
    using nxt cur by (simp add: reconcile_fields noisy_msg_flag_eq)
  have out: "new_out w w' = es"
    using run_stepD(1) [OF r1] by (simp add: new_out_def)
  have len: "length (slots_run (new_out w w')) = 1"
    using run_step_one(1) [OF r1 k] out by simp
  have spc: "SlotsProcessedCount (Scheduler w') = SlotsProcessedCount (Scheduler w) + 1"
    using run_step_one(4) [OF r1 k] by (simp add: reconcile_fields noisy_msg_flag_eq)
  have lpc: "LastProcessCount (Scheduler w') = 2"
    using executor_frameD(18) [OF run_stepD(7) [OF r1]] j2
    by (simp add: reconcile_fields)
  then have "fst (jitter_correction cfg 2 (Scheduler w')) = 2"
    by (simp add: jitter_correction_def)
  then show "\<exists>w'. SCHEDULER_Execute cfg ev w = Inr (True, w') \<and>
        length (slots_run (new_out w w')) = 1 \<and>
        SlotsProcessedCount (Scheduler w') = SlotsProcessedCount (Scheduler w) + 1 \<and>
        LastProcessCount (Scheduler w') = 2 \<and>
        fst (jitter_correction cfg 2 (Scheduler w')) = 2"
    using ex len spc lpc by blast
qed

text \<open>C4 at a wakeup in slot 8 while slot 7 is the next to process.\<close>

theorem C4_jitter_collapse_witness:
  "initial_process_count cfg100 8 (Scheduler (world_at 7 8)) = 2 \<and>
   LastProcessCount (Scheduler (world_at 7 8)) = 1 \<and>
   fst (jitter_correction cfg100 2 (Scheduler (world_at 7 8))) = 1 \<and>
   (\<exists>w'. SCHEDULER_Execute cfg100 ev_ok (world_at 7 8) = Inr (True, w') \<and>
        length (slots_run (new_out (world_at 7 8) w')) = 1 \<and>
        SlotsProcessedCount (Scheduler w') = 1 \<and>
        LastProcessCount (Scheduler w') = 2 \<and>
        fst (jitter_correction cfg100 2 (Scheduler w')) = 2)"
proof -
  have 1: "initial_process_count cfg100 8 (Scheduler (world_at 7 8)) = 2"
    and 2: "LastProcessCount (Scheduler (world_at 7 8)) = 1"
    and 3: "OS_BinSemTake ev_ok = CFE_SUCCESS"
    and 4: "GetCurrentSlotNumber cfg100 ev_ok (Scheduler (world_at 7 8)) = Inr 8"
    and 5: "8 < SCHTBL_SLOTS cfg100" "NextSlotNumber (Scheduler (world_at 7 8)) < SCHTBL_SLOTS cfg100"
    and 6: "1 \<le> SCHEDULER_MAX_SLOTS_PER_WAKEUP cfg100"
    and 7: "SlotsProcessedCount (Scheduler (world_at 7 8)) = 0"
    by (simp_all add: world_at_def world0_def sched0_def cfg100_def ev_ok_def
        GetCurrentSlotNumber_def initial_process_count_def word_less_nat_alt word_le_nat_alt)
  show ?thesis
    using C4_jitter_collapse [OF 1 2 3 4 5 table_ok_world_at 6] 1 2 7 by simp
qed

section \<open>The lag limit (C5)\<close>

text \<open>
  C5: on every wakeup where \<open>ProcessCount\<close>, after the jitter correction and the
  same-slot zeroing, exceeds \<open>SCHEDULER_MAX_LAG_COUNT\<close>, the reconciler increments
  \<open>SkippedSlotsCount\<close>, increments \<open>TablePassCount\<close> exactly if
  \<open>CurrentSlot < NextSlotNumber\<close>, sets \<open>NextSlotNumber\<close> to \<open>CurrentSlot\<close> and
  \<open>ProcessCount\<close> to 1; the wakeup then processes exactly one slot, the current one.
  The wakeup is one in which the semaphore is taken, the slot clock and
  \<open>NextSlotNumber\<close> are within the table, the table is well formed, and the header
  constant for the maximum number of slots per wakeup is at least one.
\<close>

theorem C5_lag_limit:
  assumes lag: "SCHEDULER_MAX_LAG_COUNT cfg < fst (lag_input cfg cur (Scheduler w))"
    and sem: "OS_BinSemTake ev = CFE_SUCCESS"
    and clk: "GetCurrentSlotNumber cfg ev (Scheduler w) = Inr cur"
    and cur: "cur < SCHTBL_SLOTS cfg"
    and nxt: "NextSlotNumber (Scheduler w) < SCHTBL_SLOTS cfg"
    and tbl: "table_ok cfg (Scheduler w)"
    and cap: "1 \<le> SCHEDULER_MAX_SLOTS_PER_WAKEUP cfg"
  shows
   "fst (lag_limit cfg cur (fst (lag_input cfg cur (Scheduler w)))
          (snd (lag_input cfg cur (Scheduler w)))) = 1 \<and>
    NextSlotNumber (snd (lag_limit cfg cur (fst (lag_input cfg cur (Scheduler w)))
          (snd (lag_input cfg cur (Scheduler w))))) = cur \<and>
    SkippedSlotsCount (snd (lag_limit cfg cur (fst (lag_input cfg cur (Scheduler w)))
          (snd (lag_input cfg cur (Scheduler w))))) = SkippedSlotsCount (Scheduler w) + 1 \<and>
    TablePassCount (snd (lag_limit cfg cur (fst (lag_input cfg cur (Scheduler w)))
          (snd (lag_input cfg cur (Scheduler w))))) =
      (if cur < NextSlotNumber (Scheduler w)
       then TablePassCount (Scheduler w) + 1 else TablePassCount (Scheduler w)) \<and>
    (\<exists>w'. SCHEDULER_Execute cfg ev w = Inr (True, w') \<and>
        slots_run (new_out w w') = [cur] \<and>
        SkippedSlotsCount (Scheduler w') = SkippedSlotsCount (Scheduler w) + 1 \<and>
        NextSlotNumber (Scheduler w') = (if cur + 1 = SCHTBL_SLOTS cfg then 0 else cur + 1) \<and>
        TablePassCount (Scheduler w') =
          TablePassCount (Scheduler w) + (if cur < NextSlotNumber (Scheduler w) then 1 else 0)
            + (if cur + 1 = SCHTBL_SLOTS cfg then 1 else 0))"
proof (intro conjI)
  let ?S = "noisy_msg_flag (Scheduler w)"
  let ?L = "lag_limit cfg cur (fst (lag_input cfg cur (Scheduler w)))
          (snd (lag_input cfg cur (Scheduler w)))"
  show "fst ?L = 1" "NextSlotNumber (snd ?L) = cur"
    "SkippedSlotsCount (snd ?L) = SkippedSlotsCount (Scheduler w) + 1"
    "TablePassCount (snd ?L) =
      (if cur < NextSlotNumber (Scheduler w)
       then TablePassCount (Scheduler w) + 1 else TablePassCount (Scheduler w))"
    using lag lag_input_fields [of cfg cur "Scheduler w"]
    by (simp_all add: lag_limit_def Let_def)
  have lg: "lagging cfg cur ?S"
    using lag by (simp add: lagging_def)
  have ncap: "\<not> SCHEDULER_MAX_SLOTS_PER_WAKEUP cfg < 1"
    using cap by unat_arith
  have rpc: "fst (reconcile cfg cur ?S) = 1"
    using lg ncap by (simp add: reconcile_fields slots_per_wakeup_def)
  let ?w = "w\<lparr>Scheduler := snd (reconcile cfg cur ?S)\<rparr>"
  from SCHEDULER_Execute_run [OF sem clk cur nxt tbl] rpc obtain w' es
    where ex: "SCHEDULER_Execute cfg ev w = Inr (True, w')"
      and r1: "run_step cfg 1 ?w w' es"
    by auto
  have n: "NextSlotNumber (Scheduler ?w) = cur"
    using lg by (simp add: reconcile_fields)
  then have k: "NextSlotNumber (Scheduler ?w) < SCHTBL_SLOTS cfg"
    using cur by simp
  have out: "new_out w w' = es"
    using run_stepD(1) [OF r1] by (simp add: new_out_def)
  have tr: "slots_run (new_out w w') = [cur]"
    using run_step_one(1) [OF r1 k] out n by simp
  have sk: "SkippedSlotsCount (Scheduler w') = SkippedSlotsCount (Scheduler w) + 1"
    using executor_frameD(2) [OF run_stepD(7) [OF r1]] lg
    by (simp add: reconcile_fields noisy_msg_flag_eq)
  have nx: "NextSlotNumber (Scheduler w') = (if cur + 1 = SCHTBL_SLOTS cfg then 0 else cur + 1)"
    using run_step_one(2) [OF r1 k] n by simp
  have tp: "TablePassCount (Scheduler w') =
          TablePassCount (Scheduler w) + (if cur < NextSlotNumber (Scheduler w) then 1 else 0)
            + (if cur + 1 = SCHTBL_SLOTS cfg then 1 else 0)"
    using run_step_one(3) [OF r1 k] n lg
    by (simp add: reconcile_fields noisy_msg_flag_eq)
  show "\<exists>w'. SCHEDULER_Execute cfg ev w = Inr (True, w') \<and>
        slots_run (new_out w w') = [cur] \<and>
        SkippedSlotsCount (Scheduler w') = SkippedSlotsCount (Scheduler w) + 1 \<and>
        NextSlotNumber (Scheduler w') = (if cur + 1 = SCHTBL_SLOTS cfg then 0 else cur + 1) \<and>
        TablePassCount (Scheduler w') =
          TablePassCount (Scheduler w) + (if cur < NextSlotNumber (Scheduler w) then 1 else 0)
            + (if cur + 1 = SCHTBL_SLOTS cfg then 1 else 0)"
    using ex tr sk nx tp by blast
qed

text \<open>
  C5 at a wakeup in slot 10 while slot 40 is the next to process: 71 slots are due,
  more than the 50 that \<open>cfg100\<close> allows, and the rollover is among those skipped.
\<close>

theorem C5_lag_limit_witness:
  "SCHEDULER_MAX_LAG_COUNT cfg100 < fst (lag_input cfg100 10 (Scheduler (world_at 40 10))) \<and>
   (\<exists>w'. SCHEDULER_Execute cfg100 ev_ok (world_at 40 10) = Inr (True, w') \<and>
        slots_run (new_out (world_at 40 10) w') = [10] \<and>
        SkippedSlotsCount (Scheduler w') = 1 \<and>
        NextSlotNumber (Scheduler w') = 11 \<and>
        TablePassCount (Scheduler w') = 6)"
proof -
  have 1: "SCHEDULER_MAX_LAG_COUNT cfg100 < fst (lag_input cfg100 10 (Scheduler (world_at 40 10)))"
    by (simp add: world_at_def world0_def sched0_def cfg100_def lag_input_def Let_def
        initial_process_count_def jitter_correction_def same_slot_def word_less_nat_alt)
  have 3: "OS_BinSemTake ev_ok = CFE_SUCCESS"
    and 4: "GetCurrentSlotNumber cfg100 ev_ok (Scheduler (world_at 40 10)) = Inr 10"
    and 5: "10 < SCHTBL_SLOTS cfg100" "NextSlotNumber (Scheduler (world_at 40 10)) < SCHTBL_SLOTS cfg100"
    and 6: "1 \<le> SCHEDULER_MAX_SLOTS_PER_WAKEUP cfg100"
    and 7: "SkippedSlotsCount (Scheduler (world_at 40 10)) = 0"
      "TablePassCount (Scheduler (world_at 40 10)) = 5"
      "NextSlotNumber (Scheduler (world_at 40 10)) = 40"
      "SCHTBL_SLOTS cfg100 = 100"
    by (simp_all add: world_at_def world0_def sched0_def cfg100_def ev_ok_def
        GetCurrentSlotNumber_def word_less_nat_alt word_le_nat_alt)
  show ?thesis
    using C5_lag_limit [OF 1 3 4 5 table_ok_world_at 6] 1 7
    by (simp add: word_less_nat_alt)
qed

section \<open>The phase condition of an activity (C6)\<close>

text \<open>
  C6: when the slot executor processes a slot, an entry of the slot is dispatched if and
  only if it is enabled and \<open>TablePassCount mod Period = Offset\<close>; a disabled entry is
  never dispatched; an enabled entry with \<open>Period = 4\<close> and \<open>Offset = 1\<close> is dispatched
  exactly on the passes with \<open>TablePassCount mod 4 = 1\<close>.  To dispatch an entry is to
  look up the message it references through \<open>MSGTBL_GetMsgPtr\<close> and, if it is found, to
  hand it to \<open>CFE_SB_TransmitMsg\<close>: the effects that the executor adds are the slot
  marker followed by one dispatch for every such entry, in the order of the slot, each
  with the message index of its entry and with the status that the lookup and the
  transmission return at that moment.  The slot is one of a well-formed table.
\<close>

theorem C6_dispatch_condition:
  assumes tbl: "table_ok cfg (Scheduler w)"
    and nxt: "NextSlotNumber (Scheduler w) < SCHTBL_SLOTS cfg"
  shows "\<exists>w'. ProcessNextSlot cfg ev w = Inr (CFE_SUCCESS, w') \<and>
     dispatched (new_out w w') =
       map (\<lambda>i. (i, MsgTblIndex (SchTbl (Scheduler w) ! i)))
         (filter (\<lambda>i. Enabled (SchTbl (Scheduler w) ! i) \<and>
                      TablePassCount (Scheduler w) mod Period (SchTbl (Scheduler w) ! i) =
                        Offset (SchTbl (Scheduler w) ! i))
            (slot_indices cfg (NextSlotNumber (Scheduler w)))) \<and>
     length (new_out w w') = Suc (length (dispatched (new_out w w'))) \<and>
     new_out w w' ! 0 = SlotRun (NextSlotNumber (Scheduler w)) \<and>
     (\<forall>k i m. k < length (dispatched (new_out w w')) \<and> dispatched (new_out w w') ! k = (i, m) \<longrightarrow>
        new_out w w' ! Suc k =
          Dispatch i m
            (case MSGTBL_GetMsgPtr ev m of
               None \<Rightarrow> CFE_SB_NO_MESSAGE
             | Some MsgPtr \<Rightarrow> CFE_SB_TransmitMsg ev (length (Out w) + Suc k) MsgPtr)) \<and>
     (\<forall>i\<in>set (slot_indices cfg (NextSlotNumber (Scheduler w))).
        \<not> Enabled (SchTbl (Scheduler w) ! i) \<longrightarrow>
        i \<notin> fst ` set (dispatched (new_out w w'))) \<and>
     (\<forall>i\<in>set (slot_indices cfg (NextSlotNumber (Scheduler w))).
        Enabled (SchTbl (Scheduler w) ! i) \<and> Period (SchTbl (Scheduler w) ! i) = 4 \<and>
        Offset (SchTbl (Scheduler w) ! i) = 1 \<longrightarrow>
        (i \<in> fst ` set (dispatched (new_out w w')) \<longleftrightarrow> TablePassCount (Scheduler w) mod 4 = 1))"
proof -
  let ?S = "Scheduler w"
  let ?js = "slot_indices cfg (NextSlotNumber ?S)"
  let ?ds = "filter (due ?S) ?js"
  from ProcessNextSlot_slot_step [OF tbl nxt] obtain w' es
    where p: "ProcessNextSlot cfg ev w = Inr (CFE_SUCCESS, w')" and s: "slot_step cfg ev w w' es"
    by blast
  note L = ProcessNextSlot_log [OF p]
  have d: "dispatched (new_out w w') = map (\<lambda>i. (i, MsgTblIndex (SchTbl ?S ! i))) ?ds"
    using slot_stepD(3) [OF s] slot_step_new_out(1) [OF s] by simp
  have due: "due ?S = (\<lambda>i. Enabled (SchTbl ?S ! i) \<and>
      TablePassCount ?S mod Period (SchTbl ?S ! i) = Offset (SchTbl ?S ! i))"
    by (rule ext) (simp add: due_def)
  have m: "i \<in> fst ` set (dispatched (new_out w w')) \<longleftrightarrow> i \<in> set ?js \<and> due ?S i" for i
    by (auto simp: d image_iff)
  have len: "length (new_out w w') = Suc (length (dispatched (new_out w w')))"
    unfolding d by (simp add: L)
  have hd: "new_out w w' ! 0 = SlotRun (NextSlotNumber ?S)"
    by (simp add: L)
  have pin: "\<forall>k i m. k < length (dispatched (new_out w w')) \<and> dispatched (new_out w w') ! k = (i, m) \<longrightarrow>
        new_out w w' ! Suc k =
          Dispatch i m
            (case MSGTBL_GetMsgPtr ev m of
               None \<Rightarrow> CFE_SB_NO_MESSAGE
             | Some MsgPtr \<Rightarrow> CFE_SB_TransmitMsg ev (length (Out w) + Suc k) MsgPtr)"
  proof (intro allI impI)
    fix k i m
    assume a: "k < length (dispatched (new_out w w')) \<and> dispatched (new_out w w') ! k = (i, m)"
    then have k: "k < length ?ds" by (simp add: d)
    with a have im: "i = ?ds ! k" "m = MsgTblIndex (SchTbl ?S ! (?ds ! k))" by (auto simp: d)
    have "new_out w w' ! Suc k = dispatch_log ev ?S (Suc (length (Out w))) ?js ! k"
      by (simp add: L)
    then show "new_out w w' ! Suc k =
          Dispatch i m
            (case MSGTBL_GetMsgPtr ev m of
               None \<Rightarrow> CFE_SB_NO_MESSAGE
             | Some MsgPtr \<Rightarrow> CFE_SB_TransmitMsg ev (length (Out w) + Suc k) MsgPtr)"
      unfolding im using dispatch_log_nth [OF k, of ev "Suc (length (Out w))"]
      by (simp cong: option.case_cong)
  qed
  have d': "dispatched (new_out w w') =
       map (\<lambda>i. (i, MsgTblIndex (SchTbl ?S ! i)))
         (filter (\<lambda>i. Enabled (SchTbl ?S ! i) \<and>
                      TablePassCount ?S mod Period (SchTbl ?S ! i) = Offset (SchTbl ?S ! i)) ?js)"
    using d due by simp
  have off: "\<forall>i\<in>set ?js. \<not> Enabled (SchTbl ?S ! i) \<longrightarrow> i \<notin> fst ` set (dispatched (new_out w w'))"
    by (simp add: m due_def)
  have p41: "\<forall>i\<in>set ?js. Enabled (SchTbl ?S ! i) \<and> Period (SchTbl ?S ! i) = 4 \<and>
        Offset (SchTbl ?S ! i) = 1 \<longrightarrow>
        (i \<in> fst ` set (dispatched (new_out w w')) \<longleftrightarrow> TablePassCount ?S mod 4 = 1)"
    by (simp add: m due_def)
  show ?thesis
    by (rule exI [of _ w']) (intro conjI p d' len hd pin off p41)
qed

text \<open>
  C6 on slot 0 of the table of \<open>world_mixed\<close>, whose first three entries have
  \<open>Period = 4\<close> and \<open>Offset = 1\<close> and whose fourth has \<open>Offset = 2\<close>: on pass 5 the
  first three are dispatched, each with the outcome of its own message (message 3 is
  refused by the software bus, message 9 is not in the message table, message 5 is
  sent), and the fourth is not; on pass 6 only the fourth is.
\<close>

theorem C6_dispatch_condition_witness:
  "(\<exists>w'. ProcessNextSlot cfg2x4 ev_mixed world_mixed = Inr (CFE_SUCCESS, w') \<and>
         new_out world_mixed w' =
           [SlotRun 0, Dispatch 0 3 (CFE_STATUS_ERROR (- 1)), Dispatch 1 9 CFE_SB_NO_MESSAGE,
            Dispatch 2 5 CFE_SUCCESS]) \<and>
   (\<exists>w'. ProcessNextSlot cfg2x4 ev_mixed
            (world_mixed\<lparr>Scheduler := (Scheduler world_mixed)\<lparr>TablePassCount := 6\<rparr>\<rparr>)
            = Inr (CFE_SUCCESS, w') \<and>
         new_out (world_mixed\<lparr>Scheduler := (Scheduler world_mixed)\<lparr>TablePassCount := 6\<rparr>\<rparr>) w' =
           [SlotRun 0, Dispatch 3 6 CFE_SUCCESS])"
proof -
  let ?w6 = "world_mixed\<lparr>Scheduler := (Scheduler world_mixed)\<lparr>TablePassCount := 6\<rparr>\<rparr>"
  note f = world_mixed_facts
  have 1: "table_ok cfg2x4 (Scheduler ?w6)"
    using f(1) by (simp add: table_ok_def)
  have 2: "NextSlotNumber (Scheduler ?w6) < SCHTBL_SLOTS cfg2x4"
    using f(2) by simp
  have 5: "(5 :: uint32) mod 4 = 1" "(5 :: uint32) mod 4 \<noteq> 2"
    "(6 :: uint32) mod 4 = 2" "(6 :: uint32) mod 4 \<noteq> 1"
    by (simp_all add: word_mod_def)
  from C6_dispatch_condition [OF f(1) f(2), of ev_mixed] obtain w'
    where p: "ProcessNextSlot cfg2x4 ev_mixed world_mixed = Inr (CFE_SUCCESS, w')"
      and d: "dispatched (new_out world_mixed w') = [(0, 3), (1, 9), (2, 5)]"
      and l: "length (new_out world_mixed w') = Suc (length (dispatched (new_out world_mixed w')))"
      and h: "new_out world_mixed w' ! 0 = SlotRun 0"
      and pin: "\<forall>k i m. k < length (dispatched (new_out world_mixed w')) \<and>
          dispatched (new_out world_mixed w') ! k = (i, m) \<longrightarrow>
          new_out world_mixed w' ! Suc k =
            Dispatch i m
              (case MSGTBL_GetMsgPtr ev_mixed m of
                 None \<Rightarrow> CFE_SB_NO_MESSAGE
               | Some MsgPtr \<Rightarrow> CFE_SB_TransmitMsg ev_mixed (length (Out world_mixed) + Suc k) MsgPtr)"
    by (auto simp add: f 5 entry_msg_def entry41_def entry42_def)
  have "new_out world_mixed w' ! 1 = Dispatch 0 3 (CFE_STATUS_ERROR (- 1))"
    "new_out world_mixed w' ! 2 = Dispatch 1 9 CFE_SB_NO_MESSAGE"
    "new_out world_mixed w' ! 3 = Dispatch 2 5 CFE_SUCCESS"
    using pin [rule_format, of 0 0 3] pin [rule_format, of 1 1 9] pin [rule_format, of 2 2 5]
    by (simp_all add: d ev_mixed_facts eval_nat_numeral)
  then have A: "new_out world_mixed w' =
           [SlotRun 0, Dispatch 0 3 (CFE_STATUS_ERROR (- 1)), Dispatch 1 9 CFE_SB_NO_MESSAGE,
            Dispatch 2 5 CFE_SUCCESS]"
    using list_eq_nth4 [of "new_out world_mixed w'"] l h by (simp add: d)
  from C6_dispatch_condition [OF 1 2, of ev_mixed] obtain w6
    where p6: "ProcessNextSlot cfg2x4 ev_mixed ?w6 = Inr (CFE_SUCCESS, w6)"
      and d6: "dispatched (new_out ?w6 w6) = [(3, 6)]"
      and l6: "length (new_out ?w6 w6) = Suc (length (dispatched (new_out ?w6 w6)))"
      and h6: "new_out ?w6 w6 ! 0 = SlotRun 0"
      and pin6: "\<forall>k i m. k < length (dispatched (new_out ?w6 w6)) \<and>
          dispatched (new_out ?w6 w6) ! k = (i, m) \<longrightarrow>
          new_out ?w6 w6 ! Suc k =
            Dispatch i m
              (case MSGTBL_GetMsgPtr ev_mixed m of
                 None \<Rightarrow> CFE_SB_NO_MESSAGE
               | Some MsgPtr \<Rightarrow> CFE_SB_TransmitMsg ev_mixed (length (Out ?w6) + Suc k) MsgPtr)"
    by (auto simp add: f 5 entry_msg_def entry41_def entry42_def)
  have "new_out ?w6 w6 ! 1 = Dispatch 3 6 CFE_SUCCESS"
    using pin6 [rule_format, of 0 3 6] by (simp add: d6 ev_mixed_facts)
  then have B: "new_out ?w6 w6 = [SlotRun 0, Dispatch 3 6 CFE_SUCCESS]"
    using list_eq_nth2 [of "new_out ?w6 w6"] l6 h6 by (simp add: d6)
  show ?thesis using p A p6 B by blast
qed

section \<open>Dispatch failure (C7)\<close>

text \<open>
  C7: when the slot executor processes a slot, the entries dispatched are the due
  entries of the slot, and the status of each dispatch is what the lookup through
  \<open>MSGTBL_GetMsgPtr\<close> and the transmission through \<open>CFE_SB_TransmitMsg\<close> return for its
  message at that moment.  An entry whose status is not \<open>CFE_SUCCESS\<close> (the lookup
  misses or the transmission returns an error) is disabled and counted in
  \<open>ScheduleActivityFailureCount\<close>, once; an entry whose status is \<open>CFE_SUCCESS\<close> is
  left as it was and counted in \<open>ScheduleActivitySuccessCount\<close>; every entry that is
  not dispatched is left as it was.  The failure is not fatal: the executor completes
  the slot (it advances \<open>NextSlotNumber\<close> and counts the slot) and returns
  \<open>CFE_SUCCESS\<close>; \<open>SCHEDULER_Execute\<close> returns \<open>true\<close> whatever the dispatches do,
  and a wakeup that processes one slot ends in the state in which the executor leaves
  that slot.  The slot is one of a well-formed table; for \<open>SCHEDULER_Execute\<close> the
  semaphore is taken and the slot clock is within the table.
\<close>

theorem C7_dispatch_failure:
  assumes tbl: "table_ok cfg (Scheduler w)"
    and nxt: "NextSlotNumber (Scheduler w) < SCHTBL_SLOTS cfg"
  shows "(\<exists>w'. ProcessNextSlot cfg ev w = Inr (CFE_SUCCESS, w') \<and>
      dispatched (new_out w w') =
        map (\<lambda>i. (i, MsgTblIndex (SchTbl (Scheduler w) ! i)))
          (filter (due (Scheduler w)) (slot_indices cfg (NextSlotNumber (Scheduler w)))) \<and>
      length (new_out w w') = Suc (length (dispatched (new_out w w'))) \<and>
      (\<forall>k i m. k < length (dispatched (new_out w w')) \<and> dispatched (new_out w w') ! k = (i, m) \<longrightarrow>
         (let MsgSendStatus =
                (case MSGTBL_GetMsgPtr ev m of
                   None \<Rightarrow> CFE_SB_NO_MESSAGE
                 | Some MsgPtr \<Rightarrow> CFE_SB_TransmitMsg ev (length (Out w) + Suc k) MsgPtr)
          in new_out w w' ! Suc k = Dispatch i m MsgSendStatus \<and>
             SchTbl (Scheduler w') ! i =
               (if MsgSendStatus = CFE_SUCCESS then SchTbl (Scheduler w) ! i
                else (SchTbl (Scheduler w) ! i)\<lparr>Enabled := False\<rparr>))) \<and>
      (\<forall>i<length (SchTbl (Scheduler w)).
         i \<notin> fst ` set (dispatched (new_out w w')) \<longrightarrow>
         SchTbl (Scheduler w') ! i = SchTbl (Scheduler w) ! i) \<and>
      length (SchTbl (Scheduler w')) = length (SchTbl (Scheduler w)) \<and>
      set (failed (new_out w w')) \<subseteq> set (slot_indices cfg (NextSlotNumber (Scheduler w))) \<and>
      distinct (failed (new_out w w')) \<and>
      (\<forall>i<length (SchTbl (Scheduler w)).
         SchTbl (Scheduler w') ! i =
           (if i \<in> set (failed (new_out w w'))
            then (SchTbl (Scheduler w) ! i)\<lparr>Enabled := False\<rparr>
            else SchTbl (Scheduler w) ! i)) \<and>
      ScheduleActivityFailureCount (Scheduler w') =
        ScheduleActivityFailureCount (Scheduler w) + of_nat (length (failed (new_out w w'))) \<and>
      ScheduleActivitySuccessCount (Scheduler w') =
        ScheduleActivitySuccessCount (Scheduler w) + of_nat (length (succeeded (new_out w w'))) \<and>
      length (failed (new_out w w')) + length (succeeded (new_out w w')) =
        length (dispatched (new_out w w')) \<and>
      NextSlotNumber (Scheduler w') =
        (if NextSlotNumber (Scheduler w) + 1 = SCHTBL_SLOTS cfg then 0
         else NextSlotNumber (Scheduler w) + 1) \<and>
      SlotsProcessedCount (Scheduler w') = SlotsProcessedCount (Scheduler w) + 1) \<and>
    (OS_BinSemTake ev = CFE_SUCCESS \<and> GetCurrentSlotNumber cfg ev (Scheduler w) = Inr cur \<and>
     cur < SCHTBL_SLOTS cfg \<longrightarrow>
     (\<exists>w'. SCHEDULER_Execute cfg ev w = Inr (True, w'))) \<and>
    (OS_BinSemTake ev = CFE_SUCCESS \<and> GetCurrentSlotNumber cfg ev (Scheduler w) = Inr cur \<and>
     cur < SCHTBL_SLOTS cfg \<and> fst (reconcile cfg cur (noisy_msg_flag (Scheduler w))) = 1 \<longrightarrow>
     (\<exists>w'. ProcessNextSlot cfg ev
              (w\<lparr>Scheduler := snd (reconcile cfg cur (noisy_msg_flag (Scheduler w)))\<rparr>) =
              Inr (CFE_SUCCESS, w') \<and>
           SCHEDULER_Execute cfg ev w = Inr (True, w')))"
proof (intro conjI impI)
  let ?S = "Scheduler w"
  let ?js = "slot_indices cfg (NextSlotNumber ?S)"
  let ?ds = "filter (due ?S) ?js"
  let ?t = "Suc (length (Out w))"
  from ProcessNextSlot_slot_step [OF tbl nxt] obtain w' es
    where p: "ProcessNextSlot cfg ev w = Inr (CFE_SUCCESS, w')" and s: "slot_step cfg ev w w' es"
    by blast
  note n = slot_step_new_out [OF s]
  note L = ProcessNextSlot_log [OF p]
  have fl: "failed (new_out w w') = failed (dispatch_log ev ?S ?t ?js)"
    by (simp add: L)
  have d: "dispatched (new_out w w') = map (\<lambda>i. (i, MsgTblIndex (SchTbl ?S ! i))) ?ds"
    using slot_stepD(3) [OF s] n(1) by simp
  have l: "length (new_out w w') = Suc (length (dispatched (new_out w w')))"
    unfolding d by (simp add: L)
  have sub2: "set (failed (new_out w w')) \<subseteq> set ?js"
    using slot_stepD(4) [OF s] by (auto simp: n)
  have dis: "distinct (failed (new_out w w'))"
    using slot_step_distinct_failed [OF s] by (simp add: n)
  have len: "length (SchTbl (Scheduler w')) = length (SchTbl ?S)"
    by (simp add: slot_step_fields(1) [OF s])
  have ent: "\<forall>i<length (SchTbl ?S).
         SchTbl (Scheduler w') ! i =
           (if i \<in> set (failed (new_out w w'))
            then (SchTbl ?S ! i)\<lparr>Enabled := False\<rparr>
            else SchTbl ?S ! i)"
    by (simp add: slot_step_fields(1) [OF s] n nth_disable_entries)
  have inr: "i < length (SchTbl ?S)" if "i \<in> set ?js" for i
    using slot_indices_in_range [OF nxt _ that, of "SchTbl ?S"] tbl by (simp add: table_ok_def)
  have pin: "\<forall>k i m. k < length (dispatched (new_out w w')) \<and> dispatched (new_out w w') ! k = (i, m) \<longrightarrow>
         (let MsgSendStatus =
                (case MSGTBL_GetMsgPtr ev m of
                   None \<Rightarrow> CFE_SB_NO_MESSAGE
                 | Some MsgPtr \<Rightarrow> CFE_SB_TransmitMsg ev (length (Out w) + Suc k) MsgPtr)
          in new_out w w' ! Suc k = Dispatch i m MsgSendStatus \<and>
             SchTbl (Scheduler w') ! i =
               (if MsgSendStatus = CFE_SUCCESS then SchTbl ?S ! i
                else (SchTbl ?S ! i)\<lparr>Enabled := False\<rparr>))"
  proof (intro allI impI)
    fix k i m
    assume a: "k < length (dispatched (new_out w w')) \<and> dispatched (new_out w w') ! k = (i, m)"
    let ?st = "case MSGTBL_GetMsgPtr ev m of
                   None \<Rightarrow> CFE_SB_NO_MESSAGE
                 | Some MsgPtr \<Rightarrow> CFE_SB_TransmitMsg ev (length (Out w) + Suc k) MsgPtr"
    from a have k: "k < length ?ds" by (simp add: d)
    with a have im: "i = ?ds ! k" "m = MsgTblIndex (SchTbl ?S ! (?ds ! k))" by (auto simp: d)
    have st: "(case MSGTBL_GetMsgPtr ev (MsgTblIndex (SchTbl ?S ! (?ds ! k))) of
          None \<Rightarrow> CFE_SB_NO_MESSAGE
        | Some MsgPtr \<Rightarrow> CFE_SB_TransmitMsg ev (?t + k) MsgPtr) = ?st"
      unfolding im by (simp cong: option.case_cong)
    have "new_out w w' ! Suc k = dispatch_log ev ?S ?t ?js ! k"
      by (simp add: L)
    then have 1: "new_out w w' ! Suc k = Dispatch i m ?st"
      using dispatch_log_nth [OF k, of ev ?t] unfolding st im by simp
    have "i \<in> set ?ds" unfolding im(1) using k by (rule nth_mem)
    then have "i \<in> set ?js" by simp
    then have "i < length (SchTbl ?S)" by (rule inr)
    moreover have "i \<in> set (failed (new_out w w')) \<longleftrightarrow> ?st \<noteq> CFE_SUCCESS"
      using failed_dispatch_log_iff [OF distinct_slot_indices k, of ev ?t]
      unfolding st fl im by simp
    ultimately have 2: "SchTbl (Scheduler w') ! i =
               (if ?st = CFE_SUCCESS then SchTbl ?S ! i
                else (SchTbl ?S ! i)\<lparr>Enabled := False\<rparr>)"
      using ent by simp
    show "let MsgSendStatus = ?st
          in new_out w w' ! Suc k = Dispatch i m MsgSendStatus \<and>
             SchTbl (Scheduler w') ! i =
               (if MsgSendStatus = CFE_SUCCESS then SchTbl ?S ! i
                else (SchTbl ?S ! i)\<lparr>Enabled := False\<rparr>)"
      unfolding Let_def using 1 2 by (rule conjI)
  qed
  have oth: "\<forall>i<length (SchTbl ?S).
         i \<notin> fst ` set (dispatched (new_out w w')) \<longrightarrow>
         SchTbl (Scheduler w') ! i = SchTbl ?S ! i"
  proof (intro allI impI)
    fix i assume i: "i < length (SchTbl ?S)" and nd: "i \<notin> fst ` set (dispatched (new_out w w'))"
    have "set (failed (new_out w w')) \<subseteq> fst ` set (dispatched (new_out w w'))"
      using slot_stepD(4) [OF s] by (auto simp: n slot_stepD(3) [OF s] image_iff)
    then have "i \<notin> set (failed (new_out w w'))" using nd by blast
    then show "SchTbl (Scheduler w') ! i = SchTbl ?S ! i" using ent i by simp
  qed
  have cnt: "ScheduleActivityFailureCount (Scheduler w') =
        ScheduleActivityFailureCount ?S + of_nat (length (failed (new_out w w')))"
    by (simp add: slot_step_fields(6) [OF s] n)
  have cns: "ScheduleActivitySuccessCount (Scheduler w') =
        ScheduleActivitySuccessCount ?S + of_nat (length (succeeded (new_out w w')))"
    by (simp add: slot_step_fields(5) [OF s] n)
  have tot: "length (failed (new_out w w')) + length (succeeded (new_out w w')) =
        length (dispatched (new_out w w'))"
    using slot_stepD(5) [OF s] by (simp add: n)
  show "\<exists>w'. ProcessNextSlot cfg ev w = Inr (CFE_SUCCESS, w') \<and>
      dispatched (new_out w w') = map (\<lambda>i. (i, MsgTblIndex (SchTbl ?S ! i))) ?ds \<and>
      length (new_out w w') = Suc (length (dispatched (new_out w w'))) \<and>
      (\<forall>k i m. k < length (dispatched (new_out w w')) \<and> dispatched (new_out w w') ! k = (i, m) \<longrightarrow>
         (let MsgSendStatus =
                (case MSGTBL_GetMsgPtr ev m of
                   None \<Rightarrow> CFE_SB_NO_MESSAGE
                 | Some MsgPtr \<Rightarrow> CFE_SB_TransmitMsg ev (length (Out w) + Suc k) MsgPtr)
          in new_out w w' ! Suc k = Dispatch i m MsgSendStatus \<and>
             SchTbl (Scheduler w') ! i =
               (if MsgSendStatus = CFE_SUCCESS then SchTbl ?S ! i
                else (SchTbl ?S ! i)\<lparr>Enabled := False\<rparr>))) \<and>
      (\<forall>i<length (SchTbl ?S).
         i \<notin> fst ` set (dispatched (new_out w w')) \<longrightarrow>
         SchTbl (Scheduler w') ! i = SchTbl ?S ! i) \<and>
      length (SchTbl (Scheduler w')) = length (SchTbl ?S) \<and>
      set (failed (new_out w w')) \<subseteq> set ?js \<and>
      distinct (failed (new_out w w')) \<and>
      (\<forall>i<length (SchTbl ?S).
         SchTbl (Scheduler w') ! i =
           (if i \<in> set (failed (new_out w w'))
            then (SchTbl ?S ! i)\<lparr>Enabled := False\<rparr>
            else SchTbl ?S ! i)) \<and>
      ScheduleActivityFailureCount (Scheduler w') =
        ScheduleActivityFailureCount ?S + of_nat (length (failed (new_out w w'))) \<and>
      ScheduleActivitySuccessCount (Scheduler w') =
        ScheduleActivitySuccessCount ?S + of_nat (length (succeeded (new_out w w'))) \<and>
      length (failed (new_out w w')) + length (succeeded (new_out w w')) =
        length (dispatched (new_out w w')) \<and>
      NextSlotNumber (Scheduler w') =
        (if NextSlotNumber ?S + 1 = SCHTBL_SLOTS cfg then 0 else NextSlotNumber ?S + 1) \<and>
      SlotsProcessedCount (Scheduler w') = SlotsProcessedCount ?S + 1"
    by (rule exI [of _ w'])
      (intro conjI p d l pin oth len sub2 dis ent cnt cns tot slot_step_fields(2,4) [OF s])
next
  assume "OS_BinSemTake ev = CFE_SUCCESS \<and> GetCurrentSlotNumber cfg ev (Scheduler w) = Inr cur \<and>
     cur < SCHTBL_SLOTS cfg"
  then show "\<exists>w'. SCHEDULER_Execute cfg ev w = Inr (True, w')"
    using SCHEDULER_Execute_run [of ev cfg w cur] nxt tbl by blast
next
  let ?R = "reconcile cfg cur (noisy_msg_flag (Scheduler w))"
  let ?w = "w\<lparr>Scheduler := snd ?R\<rparr>"
  assume a: "OS_BinSemTake ev = CFE_SUCCESS \<and> GetCurrentSlotNumber cfg ev (Scheduler w) = Inr cur \<and>
     cur < SCHTBL_SLOTS cfg \<and> fst ?R = 1"
  have "table_ok cfg (Scheduler ?w)"
    using tbl by (simp add: table_ok_def reconcile_fields noisy_msg_flag_eq)
  moreover have "NextSlotNumber (Scheduler ?w) < SCHTBL_SLOTS cfg"
    using nxt a by (simp add: reconcile_fields noisy_msg_flag_eq)
  ultimately obtain w' where p: "ProcessNextSlot cfg ev ?w = Inr (CFE_SUCCESS, w')"
    using ProcessNextSlot_total by blast
  have "SCHEDULER_Execute cfg ev w = Inr (True, w')"
    using a process_slots_one [OF p]
    by (simp add: SCHEDULER_Execute_def Let_def case_prod_beta)
  with p show "\<exists>w'. ProcessNextSlot cfg ev ?w = Inr (CFE_SUCCESS, w') \<and>
           SCHEDULER_Execute cfg ev w = Inr (True, w')"
    by blast
qed

text \<open>
  C7 on slot 0 of the table of \<open>world_mixed\<close>, which has four activities, on pass 5:
  the entry at index 0 fails in the transmission and the entry at index 1 in the lookup,
  and both are disabled and counted; the entry at index 2 of the same slot is sent and
  the entry at index 3 is not due, and both are left as they were; the executor
  completes the slot, and the wakeup returns \<open>true\<close> with this very state.
\<close>

theorem C7_dispatch_failure_witness:
  "(\<exists>w'. ProcessNextSlot cfg2x4 ev_mixed world_mixed = Inr (CFE_SUCCESS, w') \<and>
        new_out world_mixed w' =
          [SlotRun 0, Dispatch 0 3 (CFE_STATUS_ERROR (- 1)), Dispatch 1 9 CFE_SB_NO_MESSAGE,
           Dispatch 2 5 CFE_SUCCESS] \<and>
        SchTbl (Scheduler w') ! 0 = (entry_msg 3)\<lparr>Enabled := False\<rparr> \<and>
        SchTbl (Scheduler w') ! 1 = (entry_msg 9)\<lparr>Enabled := False\<rparr> \<and>
        SchTbl (Scheduler w') ! 2 = entry_msg 5 \<and>
        SchTbl (Scheduler w') ! 3 = entry42 \<and>
        ScheduleActivityFailureCount (Scheduler w') = 2 \<and>
        ScheduleActivitySuccessCount (Scheduler w') = 1 \<and>
        NextSlotNumber (Scheduler w') = 1 \<and>
        SlotsProcessedCount (Scheduler w') = 1 \<and>
        SCHEDULER_Execute cfg2x4 ev_mixed world_mixed = Inr (True, w'))"
proof -
  let ?S = "Scheduler world_mixed"
  note f = world_mixed_facts
  have 5: "(5 :: uint32) mod 4 = 1" "(5 :: uint32) mod 4 \<noteq> 2"
    by (simp_all add: word_mod_def)
  have 6: "ScheduleActivityFailureCount ?S = 0" "ScheduleActivitySuccessCount ?S = 0"
    "SlotsProcessedCount ?S = 0" "world_mixed\<lparr>Scheduler := ?S\<rparr> = world_mixed"
    "(0 :: uint32) < 2"
    by (simp_all add: world_mixed_def world0_def sched0_def)
  note T = C7_dispatch_failure [OF f(1) f(2), of ev_mixed 0]
  from T obtain w'
    where p: "ProcessNextSlot cfg2x4 ev_mixed world_mixed = Inr (CFE_SUCCESS, w')"
      and d: "dispatched (new_out world_mixed w') = [(0, 3), (1, 9), (2, 5)]"
      and l: "length (new_out world_mixed w') = Suc (length (dispatched (new_out world_mixed w')))"
      and pin: "\<forall>k i m. k < length (dispatched (new_out world_mixed w')) \<and>
          dispatched (new_out world_mixed w') ! k = (i, m) \<longrightarrow>
          (let MsgSendStatus =
                (case MSGTBL_GetMsgPtr ev_mixed m of
                   None \<Rightarrow> CFE_SB_NO_MESSAGE
                 | Some MsgPtr \<Rightarrow> CFE_SB_TransmitMsg ev_mixed (length (Out world_mixed) + Suc k) MsgPtr)
           in new_out world_mixed w' ! Suc k = Dispatch i m MsgSendStatus \<and>
              SchTbl (Scheduler w') ! i =
                (if MsgSendStatus = CFE_SUCCESS then SchTbl ?S ! i
                 else (SchTbl ?S ! i)\<lparr>Enabled := False\<rparr>))"
      and oth: "\<forall>i<length (SchTbl ?S).
         i \<notin> fst ` set (dispatched (new_out world_mixed w')) \<longrightarrow>
         SchTbl (Scheduler w') ! i = SchTbl ?S ! i"
      and cnt: "ScheduleActivityFailureCount (Scheduler w') =
        ScheduleActivityFailureCount ?S + of_nat (length (failed (new_out world_mixed w')))"
      and cns: "ScheduleActivitySuccessCount (Scheduler w') =
        ScheduleActivitySuccessCount ?S + of_nat (length (succeeded (new_out world_mixed w')))"
      and nx: "NextSlotNumber (Scheduler w') =
        (if NextSlotNumber ?S + 1 = SCHTBL_SLOTS cfg2x4 then 0 else NextSlotNumber ?S + 1)"
      and spc: "SlotsProcessedCount (Scheduler w') = SlotsProcessedCount ?S + 1"
    by (auto simp add: f(3,4,5,6) 5 due_def entry_msg_def entry41_def entry42_def)
  have k0: "new_out world_mixed w' ! 1 = Dispatch 0 3 (CFE_STATUS_ERROR (- 1))"
    "SchTbl (Scheduler w') ! 0 = (entry_msg 3)\<lparr>Enabled := False\<rparr>"
    using pin [rule_format, of 0 0 3] by (simp_all add: d ev_mixed_facts f(5))
  have k1: "new_out world_mixed w' ! 2 = Dispatch 1 9 CFE_SB_NO_MESSAGE"
    "SchTbl (Scheduler w') ! 1 = (entry_msg 9)\<lparr>Enabled := False\<rparr>"
    using pin [rule_format, of 1 1 9] by (simp_all add: d ev_mixed_facts f(5) eval_nat_numeral)
  have k2: "new_out world_mixed w' ! 3 = Dispatch 2 5 CFE_SUCCESS"
    "SchTbl (Scheduler w') ! 2 = entry_msg 5"
    using pin [rule_format, of 2 2 5] by (simp_all add: d ev_mixed_facts f(5) eval_nat_numeral)
  have k3: "SchTbl (Scheduler w') ! 3 = entry42"
    using oth [rule_format, of 3] by (simp add: d f(5))
  have h: "new_out world_mixed w' ! 0 = SlotRun 0"
    using ProcessNextSlot_log [OF p] by (simp add: f(3))
  have A: "new_out world_mixed w' =
           [SlotRun 0, Dispatch 0 3 (CFE_STATUS_ERROR (- 1)), Dispatch 1 9 CFE_SB_NO_MESSAGE,
            Dispatch 2 5 CFE_SUCCESS]"
    using list_eq_nth4 [of "new_out world_mixed w'"] l h k0(1) k1(1) k2(1) by (simp add: d)
  have c: "ScheduleActivityFailureCount (Scheduler w') = 2"
    "ScheduleActivitySuccessCount (Scheduler w') = 1"
    "NextSlotNumber (Scheduler w') = 1" "SlotsProcessedCount (Scheduler w') = 1"
    using cnt cns nx spc by (simp_all add: A 6 f(3,8) failed_def succeeded_def)
  have x: "SCHEDULER_Execute cfg2x4 ev_mixed world_mixed = Inr (True, w')"
    using T p by (simp add: world_mixed_wakeup ev_mixed_facts(8) 6 f(8))
  show ?thesis
    by (rule exI [of _ w']) (intro conjI p A k0(2) k1(2) k2(2) k3 c x)
qed

section \<open>The range of NextSlotNumber and the order of the slots (C8)\<close>

text \<open>
  C8: \<open>NextSlotNumber\<close> stays within \<open>[0, SCHTBL_SLOTS)\<close>: the slot executor's
  advance-and-wrap and the reconciler's jump to \<open>CurrentSlot\<close> (within
  \<open>SCHEDULER_Execute\<close>, and in the lag check by itself) keep it there.  Each call of the
  slot executor advances \<open>NextSlotNumber\<close> by one modulo \<open>SCHTBL_SLOTS\<close> and increments
  \<open>TablePassCount\<close> exactly when \<open>NextSlotNumber\<close> wraps to 0.  \<open>SCHTBL_SLOTS\<close>
  consecutive calls increase \<open>TablePassCount\<close> by exactly 1, return to the slot they
  started from and process the slots in cyclic order, which from slot 0 is
  \<open>0, 1, ..., SCHTBL_SLOTS - 1\<close>.  The table is well formed, and the slot clock reports
  a slot within the table.
\<close>

theorem C8_next_slot_in_range:
  assumes tbl: "table_ok cfg (Scheduler w)"
    and nxt: "NextSlotNumber (Scheduler w) < SCHTBL_SLOTS cfg"
  shows
   "(\<exists>w'. ProcessNextSlot cfg ev w = Inr (CFE_SUCCESS, w') \<and>
        NextSlotNumber (Scheduler w') < SCHTBL_SLOTS cfg \<and>
        unat (NextSlotNumber (Scheduler w')) =
          (unat (NextSlotNumber (Scheduler w)) + 1) mod unat (SCHTBL_SLOTS cfg) \<and>
        TablePassCount (Scheduler w') =
          (if NextSlotNumber (Scheduler w') = 0 then TablePassCount (Scheduler w) + 1
           else TablePassCount (Scheduler w))) \<and>
    (cur < SCHTBL_SLOTS cfg \<longrightarrow>
       NextSlotNumber (snd (lag_limit cfg cur pc (Scheduler w))) < SCHTBL_SLOTS cfg) \<and>
    (GetCurrentSlotNumber cfg ev (Scheduler w) = Inr cur \<and> cur < SCHTBL_SLOTS cfg \<longrightarrow>
       (\<exists>ok w'. SCHEDULER_Execute cfg ev w = Inr (ok, w') \<and>
          NextSlotNumber (Scheduler w') < SCHTBL_SLOTS cfg)) \<and>
    (\<exists>w'. process_slots cfg ev (SCHTBL_SLOTS cfg) CFE_SUCCESS w = Inr (CFE_SUCCESS, w') \<and>
        TablePassCount (Scheduler w') = TablePassCount (Scheduler w) + 1 \<and>
        NextSlotNumber (Scheduler w') = NextSlotNumber (Scheduler w) \<and>
        slots_run (new_out w w') =
          map of_nat ([unat (NextSlotNumber (Scheduler w))..<unat (SCHTBL_SLOTS cfg)] @
                      [0..<unat (NextSlotNumber (Scheduler w))]) \<and>
        (NextSlotNumber (Scheduler w) = 0 \<longrightarrow>
           slots_run (new_out w w') = map of_nat [0..<unat (SCHTBL_SLOTS cfg)]))"
proof -
  let ?S = "Scheduler w"
  let ?N = "unat (SCHTBL_SLOTS cfg)" and ?k = "unat (NextSlotNumber ?S)"
  have kN: "?k < ?N" using nxt by (simp add: word_less_nat_alt)
  have A: "\<exists>w'. ProcessNextSlot cfg ev w = Inr (CFE_SUCCESS, w') \<and>
        NextSlotNumber (Scheduler w') < SCHTBL_SLOTS cfg \<and>
        unat (NextSlotNumber (Scheduler w')) = (?k + 1) mod ?N \<and>
        TablePassCount (Scheduler w') =
          (if NextSlotNumber (Scheduler w') = 0 then TablePassCount ?S + 1
           else TablePassCount ?S)"
  proof -
    from ProcessNextSlot_slot_step [OF tbl nxt] obtain w' es
      where p: "ProcessNextSlot cfg ev w = Inr (CFE_SUCCESS, w')"
        and s: "slot_step cfg ev w w' es"
      by blast
    note n = slot_step_fields(2) [OF s]
    have "NextSlotNumber (Scheduler w') < SCHTBL_SLOTS cfg"
      unfolding n using nxt by (rule next_in_range)
    moreover have "unat (NextSlotNumber (Scheduler w')) = (?k + 1) mod ?N"
      unfolding n using nxt by (rule unat_next)
    moreover have "TablePassCount (Scheduler w') =
          (if NextSlotNumber (Scheduler w') = 0 then TablePassCount ?S + 1
           else TablePassCount ?S)"
      using slot_step_fields(3) [OF s] next_wraps_iff [OF nxt] by (simp add: n)
    ultimately show ?thesis using p by blast
  qed
  have B: "cur < SCHTBL_SLOTS cfg \<longrightarrow>
       NextSlotNumber (snd (lag_limit cfg cur pc (Scheduler w))) < SCHTBL_SLOTS cfg"
    using nxt by (simp add: lag_limit_def Let_def)
  have C: "GetCurrentSlotNumber cfg ev (Scheduler w) = Inr cur \<and> cur < SCHTBL_SLOTS cfg \<longrightarrow>
       (\<exists>ok w'. SCHEDULER_Execute cfg ev w = Inr (ok, w') \<and>
          NextSlotNumber (Scheduler w') < SCHTBL_SLOTS cfg)"
  proof (intro impI, cases "OS_BinSemTake ev = CFE_SUCCESS")
    case True
    assume a: "GetCurrentSlotNumber cfg ev (Scheduler w) = Inr cur \<and> cur < SCHTBL_SLOTS cfg"
    from a SCHEDULER_Execute_run [OF True _ _ nxt tbl, of cur] obtain w' es
      where ex: "SCHEDULER_Execute cfg ev w = Inr (True, w')"
        and r: "run_step cfg (unat (fst (reconcile cfg cur (noisy_msg_flag (Scheduler w)))))
             (w\<lparr>Scheduler := snd (reconcile cfg cur (noisy_msg_flag (Scheduler w)))\<rparr>) w' es"
      by blast
    have "0 < ?N" using kN by simp
    then have "unat (NextSlotNumber (Scheduler w')) < ?N"
      by (simp add: run_stepD(4) [OF r] unat_of_nat_mod)
    then show "\<exists>ok w'. SCHEDULER_Execute cfg ev w = Inr (ok, w') \<and>
          NextSlotNumber (Scheduler w') < SCHTBL_SLOTS cfg"
      using ex by (auto simp: word_less_nat_alt)
  next
    case False
    then have "SCHEDULER_Execute cfg ev w = Inr (False, w)"
      by (simp add: SCHEDULER_Execute_def Let_def)
    then show "\<exists>ok w'. SCHEDULER_Execute cfg ev w = Inr (ok, w') \<and>
          NextSlotNumber (Scheduler w') < SCHTBL_SLOTS cfg"
      using nxt by blast
  qed
  have D: "\<exists>w'. process_slots cfg ev (SCHTBL_SLOTS cfg) CFE_SUCCESS w = Inr (CFE_SUCCESS, w') \<and>
        TablePassCount (Scheduler w') = TablePassCount ?S + 1 \<and>
        NextSlotNumber (Scheduler w') = NextSlotNumber ?S \<and>
        slots_run (new_out w w') = map of_nat ([?k..<?N] @ [0..<?k]) \<and>
        (NextSlotNumber ?S = 0 \<longrightarrow> slots_run (new_out w w') = map of_nat [0..<?N])"
  proof -
    from process_slots_run [OF tbl nxt, of ev "SCHTBL_SLOTS cfg"] obtain w' es
      where p: "process_slots cfg ev (SCHTBL_SLOTS cfg) CFE_SUCCESS w = Inr (CFE_SUCCESS, w')"
        and r: "run_step cfg ?N w w' es"
      by blast
    have out: "new_out w w' = es"
      using run_stepD(1) [OF r] by (simp add: new_out_def)
    have "0 < ?N" using kN by simp
    then have "(?k + ?N) div ?N = 1" using kN by (simp add: div_add_self2)
    then have tp: "TablePassCount (Scheduler w') = TablePassCount ?S + 1"
      using run_stepD(5) [OF r] by simp
    have nx: "NextSlotNumber (Scheduler w') = NextSlotNumber ?S"
      using run_stepD(4) [OF r] kN by simp
    have "slots_run es = map of_nat (map (\<lambda>j. (?k + j) mod ?N) [0..<?N])"
      using run_stepD(2) [OF r] by (simp add: comp_def)
    then have tr: "slots_run (new_out w w') = map of_nat ([?k..<?N] @ [0..<?k])"
      using rotate_upt [OF kN] out by simp
    have tr0: "NextSlotNumber ?S = 0 \<longrightarrow> slots_run (new_out w w') = map of_nat [0..<?N]"
      using tr by auto
    show ?thesis using p tp nx tr tr0 by blast
  qed
  show ?thesis by (intro conjI A B C D)
qed

text \<open>
  C8 in the configuration \<open>cfg100\<close> from slot 0: one call of the executor leads to slot
  1, a lag jump to slot 10 stays within the table, a wakeup stays within the table, and
  100 calls process the slots 0 to 99 in order and complete one pass.
\<close>

theorem C8_next_slot_in_range_witness:
  "(\<exists>w'. ProcessNextSlot cfg100 ev_ok world0 = Inr (CFE_SUCCESS, w') \<and>
        NextSlotNumber (Scheduler w') < 100 \<and>
        unat (NextSlotNumber (Scheduler w')) = 1 \<and>
        TablePassCount (Scheduler w') = 5) \<and>
   NextSlotNumber (snd (lag_limit cfg100 10 71 (Scheduler world0))) < 100 \<and>
   (\<exists>ok w'. SCHEDULER_Execute cfg100 ev_ok world0 = Inr (ok, w') \<and>
        NextSlotNumber (Scheduler w') < 100) \<and>
   (\<exists>w'. process_slots cfg100 ev_ok 100 CFE_SUCCESS world0 = Inr (CFE_SUCCESS, w') \<and>
        TablePassCount (Scheduler w') = 6 \<and>
        NextSlotNumber (Scheduler w') = 0 \<and>
        slots_run (new_out world0 w') = map of_nat [0..<100])"
proof -
  let ?S = "Scheduler world0"
  have 1: "table_ok cfg100 ?S"
    by (simp add: table_ok_def cfg100_def world0_def sched0_def entry41_def list_all_iff)
  have 2: "NextSlotNumber ?S < SCHTBL_SLOTS cfg100"
    by (simp add: cfg100_def world0_def sched0_def)
  have 3: "SCHTBL_SLOTS cfg100 = 100" "NextSlotNumber ?S = 0" "TablePassCount ?S = 5"
    "GetCurrentSlotNumber cfg100 ev_ok ?S = Inr 0"
    by (simp_all add: cfg100_def world0_def sched0_def GetCurrentSlotNumber_def)
  have 4: "(10 :: uint32) < 100" "(0 :: uint32) < 100"
    by (simp_all add: word_less_nat_alt)
  note c8 = C8_next_slot_in_range [OF 1 2, of ev_ok 10 71]
    and c8' = C8_next_slot_in_range [OF 1 2, of ev_ok 0 0]
  from c8 obtain w1 where a: "ProcessNextSlot cfg100 ev_ok world0 = Inr (CFE_SUCCESS, w1)"
    "NextSlotNumber (Scheduler w1) < SCHTBL_SLOTS cfg100"
    "unat (NextSlotNumber (Scheduler w1)) =
       (unat (NextSlotNumber ?S) + 1) mod unat (SCHTBL_SLOTS cfg100)"
    "TablePassCount (Scheduler w1) =
       (if NextSlotNumber (Scheduler w1) = 0 then TablePassCount ?S + 1 else TablePassCount ?S)"
    by blast
  have u: "unat (NextSlotNumber (Scheduler w1)) = 1" using a(3) by (simp add: 3)
  then have "NextSlotNumber (Scheduler w1) \<noteq> 0" by auto
  then have "TablePassCount (Scheduler w1) = 5" using a(4) by (simp add: 3)
  then have A: "\<exists>w'. ProcessNextSlot cfg100 ev_ok world0 = Inr (CFE_SUCCESS, w') \<and>
        NextSlotNumber (Scheduler w') < 100 \<and>
        unat (NextSlotNumber (Scheduler w')) = 1 \<and>
        TablePassCount (Scheduler w') = 5"
    using a(1,2) u by (auto simp: 3)
  have B: "NextSlotNumber (snd (lag_limit cfg100 10 71 ?S)) < 100"
    using c8 4 by (simp add: 3)
  have C: "\<exists>ok w'. SCHEDULER_Execute cfg100 ev_ok world0 = Inr (ok, w') \<and>
        NextSlotNumber (Scheduler w') < 100"
    using c8' 4 by (simp add: 3)
  have D: "\<exists>w'. process_slots cfg100 ev_ok 100 CFE_SUCCESS world0 = Inr (CFE_SUCCESS, w') \<and>
        TablePassCount (Scheduler w') = 6 \<and>
        NextSlotNumber (Scheduler w') = 0 \<and>
        slots_run (new_out world0 w') = map of_nat [0..<100]"
  proof -
    from c8 obtain w' where d: "process_slots cfg100 ev_ok (SCHTBL_SLOTS cfg100) CFE_SUCCESS world0
          = Inr (CFE_SUCCESS, w')"
      "TablePassCount (Scheduler w') = TablePassCount ?S + 1"
      "NextSlotNumber (Scheduler w') = NextSlotNumber ?S"
      "NextSlotNumber ?S = 0 \<longrightarrow>
         slots_run (new_out world0 w') = map of_nat [0..<unat (SCHTBL_SLOTS cfg100)]"
      by blast
    have "unat (100 :: uint32) = 100" by simp
    then show ?thesis using d unfolding 3 by (intro exI [of _ w']) (simp del: upt_rec_numeral)
  qed
  show ?thesis by (intro conjI A B C D)
qed

section \<open>The noisy major frame latch (C9)\<close>



section \<open>The slot clock (C10)\<close>

text \<open>
  C10: provided \<open>MinorFramesSinceTone\<close>, the MET-derived slot and \<open>LastSyncMETSlot\<close>
  are each within \<open>[0, SCHTBL_SLOTS)\<close>, \<open>GetCurrentSlotNumber\<close> returns a slot within
  \<open>[0, SCHTBL_SLOTS)\<close>: \<open>MinorFramesSinceTone\<close> itself when not synchronized to the
  MET, and otherwise the MET-derived slot minus \<open>LastSyncMETSlot\<close>, with
  \<open>SCHTBL_SLOTS\<close> added before subtracting when the difference would be negative,
  which is the difference modulo \<open>SCHTBL_SLOTS\<close>.
\<close>

theorem C10_current_slot_in_range:
  assumes mf: "MinorFramesSinceTone S < SCHTBL_SLOTS cfg"
    and met: "GetMETSlotNumber cfg ev = Inr m"
    and m: "m < SCHTBL_SLOTS cfg"
    and last: "LastSyncMETSlot S < SCHTBL_SLOTS cfg"
  shows "\<exists>c. GetCurrentSlotNumber cfg ev S = Inr c \<and> c < SCHTBL_SLOTS cfg \<and>
     c = (if SyncToMET S = SCHEDULER_SYNCH_FALSE cfg then MinorFramesSinceTone S
          else if m < LastSyncMETSlot S then m + SCHTBL_SLOTS cfg - LastSyncMETSlot S
          else m - LastSyncMETSlot S) \<and>
     (if SyncToMET S = SCHEDULER_SYNCH_FALSE cfg then unat c = unat (MinorFramesSinceTone S)
      else unat c = (unat m + unat (SCHTBL_SLOTS cfg) - unat (LastSyncMETSlot S))
                      mod unat (SCHTBL_SLOTS cfg))"
proof (cases "SyncToMET S = SCHEDULER_SYNCH_FALSE cfg")
  case True
  then show ?thesis using mf by (simp add: GetCurrentSlotNumber_def)
next
  case False
  let ?N = "SCHTBL_SLOTS cfg" and ?l = "LastSyncMETSlot S"
  show ?thesis
  proof (cases "m < ?l")
    case True
    have "m + ?N - ?l < ?N" using True m last by uint_arith
    moreover have "unat (m + ?N - ?l) = unat m + unat ?N - unat ?l"
      using True m last by unat_arith
    moreover have "unat m + unat ?N - unat ?l < unat ?N"
      using True m last by (simp add: word_less_nat_alt)
    ultimately show ?thesis
      using False True met by (simp add: GetCurrentSlotNumber_def)
  next
    case ge: False
    have "m - ?l < ?N" using ge m last by uint_arith
    moreover have u: "unat (m - ?l) = unat m - unat ?l"
      using ge by unat_arith
    moreover have "(unat m + unat ?N - unat ?l) mod unat ?N = unat m - unat ?l"
    proof -
      have le: "unat ?l \<le> unat m" using ge by (simp add: word_less_nat_alt)
      have lt: "unat m - unat ?l < unat ?N" using m by (simp add: word_less_nat_alt)
      have "unat m + unat ?N - unat ?l = (unat m - unat ?l) + unat ?N" using le by simp
      then have "(unat m + unat ?N - unat ?l) mod unat ?N = (unat m - unat ?l) mod unat ?N"
        by (simp only: mod_add_self2)
      then show ?thesis using lt by simp
    qed
    ultimately show ?thesis
      using False ge met by (simp add: GetCurrentSlotNumber_def)
  qed
qed

text \<open>
  C10 in the configuration \<open>cfg100\<close>, 25000 microseconds into the second: the MET slot
  is 2; with the last major frame seen in MET slot 5 the current slot is 97.
\<close>

theorem C10_current_slot_in_range_witness:
  "MinorFramesSinceTone sched_met < SCHTBL_SLOTS cfg100 \<and>
   GetMETSlotNumber cfg100 ev_ok = Inr 2 \<and>
   2 < SCHTBL_SLOTS cfg100 \<and>
   LastSyncMETSlot sched_met < SCHTBL_SLOTS cfg100 \<and>
   (\<exists>c. GetCurrentSlotNumber cfg100 ev_ok sched_met = Inr c \<and> c < SCHTBL_SLOTS cfg100 \<and>
        c = 97 \<and> unat c = 97)"
proof -
  have 1: "MinorFramesSinceTone sched_met < SCHTBL_SLOTS cfg100"
    and 2: "GetMETSlotNumber cfg100 ev_ok = Inr 2"
    and 3: "2 < SCHTBL_SLOTS cfg100"
    and 4: "LastSyncMETSlot sched_met < SCHTBL_SLOTS cfg100"
    by (simp_all add: sched_met_def sched0_def cfg100_def ev_ok_def GetMETSlotNumber_def Let_def
        word_less_nat_alt word_div_def)
  have 5: "SyncToMET sched_met \<noteq> SCHEDULER_SYNCH_FALSE cfg100" "LastSyncMETSlot sched_met = 5"
    "SCHTBL_SLOTS cfg100 = 100" "(2 :: uint32) < 5"
    by (simp_all add: sched_met_def sched0_def cfg100_def word_less_nat_alt)
  show ?thesis
    using C10_current_slot_in_range [OF 1 2 3 4] 1 2 3 4 by (simp add: 5)
qed

end
